theory Spec2Isabelle
  imports Complex_Main
begin

section \<open>Python values, errors and dictionaries\<close>

text \<open>
  The module \<^verbatim>\<open>torn_open/api_spec_plugin.py\<close> builds OpenAPI dictionaries by reflection
  over handler classes. Exceptions are values of \<open>py_error\<close>: a function that can raise
  returns \<open>py_error + 'a\<close>, with \<open>Inl\<close> for the exception. Every function keeps its
  name in the source, without the leading underscore where it has one; the source of each
  is quoted above its definition.
\<close>

datatype py_error =
    AttributeError | TypeError | ValueError | KeyError | IndexError
  | DuplicateComponentNameError

definition bind :: "'e + 'a \<Rightarrow> ('a \<Rightarrow> 'e + 'b) \<Rightarrow> 'e + 'b" where
  "bind r f = (case r of Inl e \<Rightarrow> Inl e | Inr x \<Rightarrow> f x)"

text \<open>
  The data the module reads and emits: \<open>None\<close>, booleans, integers, floats (their finite
  values, as reals), strings, lists and dictionaries with string keys, and members of an
  \<open>Enum\<close> class (name and value). A dictionary is an association list in insertion order,
  as Python's \<open>dict\<close> keeps it.
\<close>

datatype pyval =
    PNone
  | PBool bool
  | PInt int
  | PFloat real
  | PStr string
  | PList "pyval list"
  | PDict "(string \<times> pyval) list"
  | PMember string pyval

type_synonym pydict = "(string \<times> pyval) list"

text \<open>Truth value testing, as \<^verbatim>\<open>if v\<close> does it. A member of a plain \<open>Enum\<close> is true.\<close>

fun truthy :: "pyval \<Rightarrow> bool" where
  "truthy PNone = False"
| "truthy (PBool b) = b"
| "truthy (PInt i) = (i \<noteq> 0)"
| "truthy (PFloat r) = (r \<noteq> 0)"
| "truthy (PStr s) = (s \<noteq> [])"
| "truthy (PList xs) = (xs \<noteq> [])"
| "truthy (PDict kvs) = (kvs \<noteq> [])"
| "truthy (PMember n v) = True"

definition opt_str :: "string option \<Rightarrow> pyval" where
  "opt_str s = (case s of None \<Rightarrow> PNone | Some t \<Rightarrow> PStr t)"

text \<open>\<^verbatim>\<open>d.get(k)\<close> and \<^verbatim>\<open>d[k]\<close> on a dictionary.\<close>

definition dict_get :: "(string \<times> 'v) list \<Rightarrow> string \<Rightarrow> 'v option" where
  "dict_get d k = map_of d k"

definition dict_item :: "(string \<times> 'v) list \<Rightarrow> string \<Rightarrow> py_error + 'v" where
  "dict_item d k = (case map_of d k of None \<Rightarrow> Inl KeyError | Some v \<Rightarrow> Inr v)"

text \<open>\<^verbatim>\<open>d[k] = v\<close>: an existing key keeps its position, a new key goes last.\<close>

fun dict_set :: "(string \<times> 'v) list \<Rightarrow> string \<Rightarrow> 'v \<Rightarrow> (string \<times> 'v) list" where
  "dict_set [] k v = [(k, v)]"
| "dict_set ((k', v') # d) k v = (if k' = k then (k, v) # d else (k', v') # dict_set d k v)"

text \<open>
  \<^verbatim>\<open>
  def _clear_none_from_dict(dictionary):
      return {k: v for k, v in dictionary.items() if v}
  \<close>
\<close>

definition clear_none_from_dict :: "pydict \<Rightarrow> pydict" where
  "clear_none_from_dict dictionary = filter (\<lambda>(k, v). truthy v) dictionary"

section \<open>Annotations\<close>

text \<open>
  A pydantic-style model class: its docstring and the dictionary its \<^verbatim>\<open>schema(ref_template=...)\<close>
  call renders. The rendering belongs to the schema library and is taken as given.
\<close>

record model_class =
  model_doc :: "string option"
  model_schema :: pydict

datatype pyclass = StrT | IntT | FloatT | ListT | BoolT | NoneT | DictT | OtherT string

text \<open>
  The objects a parameter annotation can be, with what the module inspects of them
  (CPython 3.9 and later):
  \<^item> \<open>Class c\<close>: a plain class (\<^verbatim>\<open>str\<close>, \<^verbatim>\<open>bool\<close>, \<^verbatim>\<open>inspect._empty\<close>, a user class); an instance
    of \<^verbatim>\<open>type\<close>, with no \<^verbatim>\<open>__args__\<close>;
  \<^item> \<open>EnumClass ms\<close>: an \<open>Enum\<close> subclass, an instance of \<^verbatim>\<open>EnumMeta\<close>, with its
    \<^verbatim>\<open>__members__\<close> (name and value, in declaration order);
  \<^item> \<open>ModelClass m\<close>: a model class;
  \<^item> \<open>TypingList\<close>: bare \<^verbatim>\<open>typing.List\<close>; \<open>UnionForm\<close>: \<^verbatim>\<open>typing.Union\<close>;
  \<^item> \<open>Alias origin args\<close>: a parameterised generic with \<^verbatim>\<open>__origin__\<close> and \<^verbatim>\<open>__args__\<close>, so
    \<^verbatim>\<open>List[str]\<close> is \<open>Alias (Class ListT) [Class StrT]\<close> and \<^verbatim>\<open>Optional[int]\<close> is
    \<open>Alias UnionForm [Class IntT, Class NoneT]\<close>;
  \<^item> \<open>Tuple xs\<close>: a tuple, which is what \<^verbatim>\<open>__args__\<close> evaluates to;
  \<^item> \<open>NoneObj\<close>: the object \<^verbatim>\<open>None\<close>;
  \<^item> \<open>Opaque s\<close>: any other object that is not a class and has no \<^verbatim>\<open>__args__\<close>: a string
    (forward reference), a \<^verbatim>\<open>TypeVar\<close>, \<^verbatim>\<open>typing.Any\<close> before Python 3.11.
\<close>

datatype pyobj =
    Class pyclass
  | EnumClass "(string \<times> pyval) list"
  | ModelClass model_class
  | TypingList
  | UnionForm
  | Alias pyobj "pyobj list"
  | Tuple "pyobj list"
  | NoneObj
  | Opaque string

abbreviation Optional :: "pyobj \<Rightarrow> pyobj" where
  "Optional t \<equiv> Alias UnionForm [t, Class NoneT]"

abbreviation ListOf :: "pyobj \<Rightarrow> pyobj" where
  "ListOf t \<equiv> Alias (Class ListT) [t]"

text \<open>
  \<^verbatim>\<open>type(v)\<close> of a value. The class of an \<open>Enum\<close> member is kept abstract: an enumeration
  whose values are themselves members of another enumeration is outside the model.
\<close>

fun type_of :: "pyval \<Rightarrow> pyobj" where
  "type_of PNone = Class NoneT"
| "type_of (PBool b) = Class BoolT"
| "type_of (PInt i) = Class IntT"
| "type_of (PFloat r) = Class FloatT"
| "type_of (PStr s) = Class StrT"
| "type_of (PList xs) = Class ListT"
| "type_of (PDict kvs) = Class DictT"
| "type_of (PMember n v) = Class (OtherT ''Enum'')"

definition isinstance_type :: "pyobj \<Rightarrow> bool" where
  "isinstance_type a =
     (case a of Class c \<Rightarrow> True | EnumClass ms \<Rightarrow> True | ModelClass m \<Rightarrow> True | _ \<Rightarrow> False)"

definition isinstance_EnumMeta :: "pyobj \<Rightarrow> bool" where
  "isinstance_EnumMeta a = (case a of EnumClass ms \<Rightarrow> True | _ \<Rightarrow> False)"

text \<open>\<^verbatim>\<open>a.__args__\<close>, \<^verbatim>\<open>a.__origin__\<close> and \<^verbatim>\<open>t[i]\<close> on a tuple, for \<open>i\<close> from 0.\<close>

definition dunder_args :: "pyobj \<Rightarrow> py_error + pyobj list" where
  "dunder_args a = (case a of Alias origin args \<Rightarrow> Inr args | _ \<Rightarrow> Inl AttributeError)"

definition dunder_origin :: "pyobj \<Rightarrow> py_error + pyobj" where
  "dunder_origin a =
     (case a of Alias origin args \<Rightarrow> Inr origin
      | TypingList \<Rightarrow> Inr (Class ListT)
      | _ \<Rightarrow> Inl AttributeError)"

definition subscript :: "'a list \<Rightarrow> nat \<Rightarrow> py_error + 'a" where
  "subscript xs i = (if i < length xs then Inr (xs ! i) else Inl IndexError)"

text \<open>
  Modelled from the spec: \<^verbatim>\<open>torn_open.types.is_optional\<close> is imported by the module and is
  not part of its source file. The spec speaks of an annotation that "is Optional",
  \<^verbatim>\<open>Optional[T]\<close>: a \<^verbatim>\<open>Union\<close> with \<^verbatim>\<open>None\<close> among its arguments. The predicate answers for
  every object and never raises.
\<close>

definition is_optional :: "pyobj \<Rightarrow> bool" where
  "is_optional a =
     (case a of Alias origin args \<Rightarrow> origin = UnionForm \<and> Class NoneT \<in> set args
      | _ \<Rightarrow> False)"

text \<open>
  Modelled from the spec: \<^verbatim>\<open>torn_open.types.is_list\<close> is imported by the module and is not
  part of its source file. The spec speaks of a "generic list/array type with a type
  argument": a parameterised generic whose origin is \<^verbatim>\<open>list\<close>. The predicate answers for
  every object and never raises.
\<close>

definition is_list :: "pyobj \<Rightarrow> bool" where
  "is_list a = (case a of Alias origin args \<Rightarrow> origin = Class ListT | _ \<Rightarrow> False)"

section \<open>Type inference\<close>

text \<open>
  \<^verbatim>\<open>
  def _unpack_enum(enum_meta: EnumMeta):
      for enum_item in enum_meta.__members__.values():
          yield enum_item.value

  def _get_type_of_enum_value(enum_meta: EnumMeta):
      for enum_item in _unpack_enum(enum_meta):
          return type(enum_item)
  \<close>
  With no member the loop body never runs and the function returns \<^verbatim>\<open>None\<close>.
\<close>

definition unpack_enum :: "pyobj \<Rightarrow> py_error + pyval list" where
  "unpack_enum enum_meta =
     (case enum_meta of EnumClass ms \<Rightarrow> Inr (map snd ms) | _ \<Rightarrow> Inl AttributeError)"

definition get_type_of_enum_value :: "pyobj \<Rightarrow> py_error + pyobj" where
  "get_type_of_enum_value enum_meta =
     bind (unpack_enum enum_meta)
       (\<lambda>items. case items of [] \<Rightarrow> Inr NoneObj | enum_item # _ \<Rightarrow> Inr (type_of enum_item))"

text \<open>The dictionary \<^verbatim>\<open>types_mapping\<close> of \<^verbatim>\<open>_get_type\<close>, keyed by the annotation object.\<close>

definition types_mapping :: "pyobj \<Rightarrow> string option" where
  "types_mapping =
     [Class StrT \<mapsto> ''string'', Class IntT \<mapsto> ''integer'', Class FloatT \<mapsto> ''number'',
      Class ListT \<mapsto> ''array'', TypingList \<mapsto> ''array'']"

fun rank :: "pyobj \<Rightarrow> nat" where
  "rank (Class c) = 0"
| "rank NoneObj = 0"
| "rank a = Suc (size a)"

lemma rank_le: "rank a \<le> Suc (size a)"
  by (cases a) simp_all

lemma rank_arg: "x \<in> set args \<Longrightarrow> rank x < rank (Alias origin args)"
proof -
  assume "x \<in> set args"
  then have "size x \<le> size_list size args"
    by (induction args) auto
  then show ?thesis
    using rank_le [of x] by simp
qed

lemma rank_first:
  assumes "dunder_args annotation = Inr args" and "subscript args 0 = Inr a"
  shows "rank a < rank annotation"
proof -
  from assms(1) obtain origin where ann: "annotation = Alias origin args"
    by (cases annotation) (simp_all add: dunder_args_def)
  from assms(2) have "a \<in> set args"
    by (cases args) (simp_all add: subscript_def)
  then show ?thesis
    unfolding ann by (rule rank_arg)
qed

lemma rank_origin: "rank origin < rank (Alias origin args)"
  using rank_le [of origin] by simp

lemma rank_enum_value:
  "get_type_of_enum_value (EnumClass ms) = Inr a \<Longrightarrow> rank a < rank (EnumClass ms)"
  by (cases ms; cases "snd (hd ms)")
     (auto simp: get_type_of_enum_value_def unpack_enum_def bind_def)

text \<open>
  \<^verbatim>\<open>
  def _get_type(annotation):
      types_mapping = {str: "string", int: "integer", float: "number",
                       list: "array", List: "array"}
      if annotation in types_mapping:
          return types_mapping[annotation]
      if is_optional(annotation):
          return _get_type(annotation.__args__[0])
      if isinstance(annotation, EnumMeta):
          annotation = _get_type_of_enum_value(annotation)
          return _get_type(annotation)
      if is_list(annotation):
          annotation = annotation.__origin__
          return _get_type(annotation)
      if not isinstance(annotation, type) and is_optional(annotation.__args__):
          return _get_type(annotation.__args__[0])
  \<close>
  Falling off the end returns \<^verbatim>\<open>None\<close>: no type.
\<close>

function get_type :: "pyobj \<Rightarrow> py_error + string option" where
  "get_type annotation =
     (case types_mapping annotation of
        Some t \<Rightarrow> Inr (Some t)
      | None \<Rightarrow>
          if is_optional annotation then
            (case dunder_args annotation of
               Inl e \<Rightarrow> Inl e
             | Inr args \<Rightarrow>
                 (case subscript args 0 of Inl e \<Rightarrow> Inl e | Inr a \<Rightarrow> get_type a))
          else if isinstance_EnumMeta annotation then
            (case get_type_of_enum_value annotation of
               Inl e \<Rightarrow> Inl e
             | Inr a \<Rightarrow> get_type a)
          else if is_list annotation then
            (case dunder_origin annotation of
               Inl e \<Rightarrow> Inl e
             | Inr a \<Rightarrow> get_type a)
          else if \<not> isinstance_type annotation then
            (case dunder_args annotation of
               Inl e \<Rightarrow> Inl e
             | Inr args \<Rightarrow>
                 if is_optional (Tuple args) then
                   (case subscript args 0 of Inl e \<Rightarrow> Inl e | Inr a \<Rightarrow> get_type a)
                 else Inr None)
          else Inr None)"
  by pat_completeness auto
termination
proof (relation "measure rank")
  show "wf (measure rank)" by simp
next
  fix annotation args a
  assume "dunder_args annotation = Inr args" "subscript args 0 = Inr a"
  then show "(a, annotation) \<in> measure rank"
    by (simp add: rank_first)
next
  fix annotation a
  assume "isinstance_EnumMeta annotation" "get_type_of_enum_value annotation = Inr a"
  then show "(a, annotation) \<in> measure rank"
    by (cases annotation) (auto simp: isinstance_EnumMeta_def dest: rank_enum_value)
next
  fix annotation a
  assume "is_list annotation" "dunder_origin annotation = Inr a"
  then show "(a, annotation) \<in> measure rank"
    by (cases annotation) (auto simp: is_list_def dunder_origin_def)
next
  fix annotation args a
  assume "dunder_args annotation = Inr args" "is_optional (Tuple args)"
  then show "(a, annotation) \<in> measure rank"
    by (simp add: is_optional_def)
qed

declare get_type.simps [simp del]

text \<open>
  \<^verbatim>\<open>
  def _get_item_type(annotation):
      if len(annotation.__args__) == 1:
          item_type = _get_type(annotation.__args__[0])
      elif is_optional(annotation):
          item_type = _get_type(annotation.__args__[0].__args__[0])
      else:
          item_type = None
      return item_type

  def Items(annotation):
      if _get_type(annotation) != "array":
          return None
      item_type = _get_item_type(annotation)
      return {"type": item_type}
  \<close>
\<close>

definition get_item_type :: "pyobj \<Rightarrow> py_error + string option" where
  "get_item_type annotation =
     bind (dunder_args annotation) (\<lambda>args.
       if length args = 1 then bind (subscript args 0) get_type
       else if is_optional annotation then
         bind (subscript args 0) (\<lambda>inner.
         bind (dunder_args inner) (\<lambda>inner_args.
         bind (subscript inner_args 0) get_type))
       else Inr None)"

definition Items :: "pyobj \<Rightarrow> py_error + pyval" where
  "Items annotation =
     bind (get_type annotation) (\<lambda>outer.
       if outer \<noteq> Some ''array'' then Inr PNone
       else bind (get_item_type annotation) (\<lambda>item_type.
         Inr (PDict [(''type'', opt_str item_type)])))"

section \<open>Parameters\<close>

text \<open>
  An \<^verbatim>\<open>inspect.Parameter\<close>: its name, its annotation and its default, which is \<open>None\<close>
  here when the signature has none (\<^verbatim>\<open>inspect._empty\<close>).
\<close>

record parameter =
  name :: string
  annotation :: pyobj
  default_value :: "pyval option"

text \<open>\<^verbatim>\<open>v.value\<close>: an \<open>Enum\<close> member has it, plain data has not.\<close>

definition dot_value :: "pyval \<Rightarrow> py_error + pyval" where
  "dot_value v = (case v of PMember n x \<Rightarrow> Inr x | _ \<Rightarrow> Inl AttributeError)"

text \<open>
  \<^verbatim>\<open>
  def _get_default_value_of_parameter(parameter: inspect.Parameter):
      annotation = parameter.annotation
      default = parameter.default if parameter.default is not inspect._empty else None
      return default.value if default and isinstance(annotation, EnumMeta) else default
  \<close>
\<close>

definition get_default_value_of_parameter :: "parameter \<Rightarrow> py_error + pyval" where
  "get_default_value_of_parameter parameter =
     (let default = (case default_value parameter of Some d \<Rightarrow> d | None \<Rightarrow> PNone)
      in if truthy default \<and> isinstance_EnumMeta (annotation parameter)
         then dot_value default else Inr default)"

text \<open>
  \<^verbatim>\<open>
  def Schema(parameter: inspect.Parameter):
      annotation = parameter.annotation
      _type = _get_type(annotation)
      _enum = [*_unpack_enum(annotation)] if isinstance(annotation, EnumMeta) else None
      default = _get_default_value_of_parameter(parameter)
      items = Items(annotation)
      schema = {"type": _type, "enum": _enum, "default": default, "items": items}
      schema = _clear_none_from_dict(schema)
      return schema
  \<close>
\<close>

definition Schema :: "parameter \<Rightarrow> py_error + pydict" where
  "Schema parameter =
     bind (get_type (annotation parameter)) (\<lambda>type.
     bind (if isinstance_EnumMeta (annotation parameter)
           then bind (unpack_enum (annotation parameter)) (\<lambda>vs. Inr (PList vs))
           else Inr PNone) (\<lambda>enum.
     bind (get_default_value_of_parameter parameter) (\<lambda>default.
     bind (Items (annotation parameter)) (\<lambda>items.
       Inr (clear_none_from_dict
              [(''type'', opt_str type), (''enum'', enum),
               (''default'', default), (''items'', items)])))))"

text \<open>
  \<^verbatim>\<open>
  def PathParameter(parameter):
      return Parameter(parameter, param_type="path", required=True)

  def QueryParameter(parameter):
      return Parameter(parameter, param_type="query")

  def Parameter(parameter, param_type, required: bool = None):
      return {
          "name": parameter.name,
          "in": param_type,
          "required": required if required is not None
                      else not is_optional(parameter.annotation),
          "schema": Schema(parameter),
      }
  \<close>
\<close>

definition Parameter :: "parameter \<Rightarrow> string \<Rightarrow> bool option \<Rightarrow> py_error + pydict" where
  "Parameter parameter param_type required =
     bind (Schema parameter) (\<lambda>schema.
       Inr [(''name'', PStr (name parameter)),
            (''in'', PStr param_type),
            (''required'', PBool (case required of
                                    Some r \<Rightarrow> r
                                  | None \<Rightarrow> \<not> is_optional (annotation parameter))),
            (''schema'', PDict schema)])"

definition PathParameter :: "parameter \<Rightarrow> py_error + pydict" where
  "PathParameter parameter = Parameter parameter ''path'' (Some True)"

definition QueryParameter :: "parameter \<Rightarrow> py_error + pydict" where
  "QueryParameter parameter = Parameter parameter ''query'' None"

section \<open>Strings\<close>

text \<open>
  HOL's \<open>char\<close> has 8 bits: a string here is a text over the code points below 256.
  \<^verbatim>\<open>str.strip()\<close> removes the white space of \<^verbatim>\<open>str.isspace\<close> at both ends,
  \<^verbatim>\<open>str.rstrip(chars)\<close> the characters of \<open>chars\<close> at the right end, and
  \<^verbatim>\<open>str.lower()\<close> maps the upper-case letters (ASCII and Latin-1) to lower case.
\<close>

definition isspace :: "char \<Rightarrow> bool" where
  "isspace c = (of_char c \<in> set [9, 10, 11, 12, 13, 28, 29, 30, 31, 32, 133, 160 :: nat])"

definition strip :: "string \<Rightarrow> string" where
  "strip s = rev (dropWhile isspace (rev (dropWhile isspace s)))"

definition rstrip :: "string \<Rightarrow> string \<Rightarrow> string" where
  "rstrip chars s = rev (dropWhile (\<lambda>c. c \<in> set chars) (rev s))"

definition lower_char :: "char \<Rightarrow> char" where
  "lower_char c =
     (let n = (of_char c :: nat)
      in if (65 \<le> n \<and> n \<le> 90) \<or> (192 \<le> n \<and> n \<le> 222 \<and> n \<noteq> 215)
         then char_of (n + 32) else c)"

definition lower :: "string \<Rightarrow> string" where
  "lower s = map lower_char s"

text \<open>
  \<^verbatim>\<open>fmt % args\<close> for a tuple of strings: \<^verbatim>\<open>%s\<close> takes the next argument and \<^verbatim>\<open>%%\<close> is a
  percent sign. Too few arguments and arguments left over are a \<^verbatim>\<open>TypeError\<close>; a
  percent sign at the very end is a \<^verbatim>\<open>ValueError\<close>. The router writes only \<^verbatim>\<open>%s\<close> into
  a path; any other directive is reported here as a \<^verbatim>\<open>ValueError\<close>.
\<close>

fun py_format :: "string \<Rightarrow> string list \<Rightarrow> py_error + string" where
  "py_format [] args = (if args = [] then Inr [] else Inl TypeError)"
| "py_format [c] args =
     (if c = CHR ''%'' then Inl ValueError
      else bind (py_format [] args) (\<lambda>r. Inr (c # r)))"
| "py_format (c # d # cs) args =
     (if c \<noteq> CHR ''%'' then bind (py_format (d # cs) args) (\<lambda>r. Inr (c # r))
      else if d = CHR ''%'' then bind (py_format cs args) (\<lambda>r. Inr (CHR ''%'' # r))
      else if d = CHR ''s'' then
        (case args of
           [] \<Rightarrow> Inl TypeError
         | a # rest \<Rightarrow> bind (py_format cs rest) (\<lambda>r. Inr (a @ r)))
      else Inl ValueError)"

section \<open>Routes and handlers\<close>

text \<open>
  A handler method as the module sees it: its docstring and the attributes the
  decorators \<^verbatim>\<open>tags\<close> and \<^verbatim>\<open>summary\<close> attach (\<^verbatim>\<open>_openapi_tags\<close>, \<^verbatim>\<open>_openapi_summary\<close>).
  A class attribute of the handler is either the framework's stub
  \<^verbatim>\<open>_unimplemented_method\<close> or some other function.
\<close>

record http_method =
  method_doc :: "string option"
  openapi_tags :: "pyval option"
  openapi_summary :: "pyval option"

datatype attr = Unimplemented | Method http_method

text \<open>
  The handler class: \<^verbatim>\<open>SUPPORTED_METHODS\<close>, its attributes by name, and the tables
  \<^verbatim>\<open>path_params\<close>, \<^verbatim>\<open>query_params\<close>, \<^verbatim>\<open>json_param\<close> and \<^verbatim>\<open>response_models\<close>. An entry
  of \<^verbatim>\<open>json_param\<close> is a pair of a name and a parameter, or a false value; an entry of
  \<^verbatim>\<open>response_models\<close> is a model class or \<^verbatim>\<open>None\<close>.
\<close>

record handler =
  SUPPORTED_METHODS :: "string list"
  attrs :: "(string \<times> attr) list"
  path_params :: "(string \<times> parameter) list"
  query_params :: "(string \<times> (string \<times> parameter) list) list"
  json_param :: "(string \<times> (string \<times> parameter) option) list"
  response_models :: "(string \<times> model_class option) list"

text \<open>
  A route (\<^verbatim>\<open>URLSpec\<close>): \<^verbatim>\<open>matcher._path\<close> is the pattern with every capture group
  replaced by \<^verbatim>\<open>%s\<close> (\<^verbatim>\<open>None\<close> when the router cannot write the pattern that way),
  \<^verbatim>\<open>regex.groups\<close> counts the capture groups and \<^verbatim>\<open>regex.groupindex\<close> maps a group name
  to its index.
\<close>

record url_spec =
  matcher_path :: "string option"
  regex_groups :: nat
  regex_groupindex :: "(string \<times> nat) list"
  handler_class :: handler

definition getattr :: "handler \<Rightarrow> string \<Rightarrow> py_error + attr" where
  "getattr h a = (case map_of (attrs h) a of None \<Rightarrow> Inl AttributeError | Some f \<Rightarrow> Inr f)"

text \<open>A comprehension whose body can raise stops at the first exception.\<close>

fun map_err :: "('a \<Rightarrow> 'e + 'b) \<Rightarrow> 'a list \<Rightarrow> 'e + 'b list" where
  "map_err f [] = Inr []"
| "map_err f (x # xs) = bind (f x) (\<lambda>y. bind (map_err f xs) (\<lambda>ys. Inr (y # ys)))"

fun filter_err :: "('a \<Rightarrow> 'e + bool) \<Rightarrow> 'a list \<Rightarrow> 'e + 'a list" where
  "filter_err f [] = Inr []"
| "filter_err f (x # xs) =
     bind (f x) (\<lambda>b. bind (filter_err f xs) (\<lambda>ys. Inr (if b then x # ys else ys)))"

text \<open>A dictionary built from a sequence of items, a later item replacing an earlier one.\<close>

definition dict_of :: "(string \<times> 'v) list \<Rightarrow> (string \<times> 'v) list" where
  "dict_of items = foldl (\<lambda>d (k, v). dict_set d k v) [] items"

section \<open>Path translation\<close>

text \<open>
  \<^verbatim>\<open>
  def extract_and_sort_path_path_params(url_spec):
      path_params = url_spec.regex.groupindex
      path_params = {
          k: v for k, v in sorted(path_params.items(), key=lambda item: item[1])
      }
      path_params = tuple(f"{{{param}}}" for param in path_params)
      return path_params

  def replace_path_with_openapi_placeholders(url_spec):
      path = url_spec.matcher._path
      if url_spec.regex.groups == 0:
          return path
      path_params = extract_and_sort_path_path_params(url_spec)
      return path % path_params

  def right_strip_path(path):
      return path.rstrip("/*")

  def get_path(url_spec):
      path = replace_path_with_openapi_placeholders(url_spec)
      path = right_strip_path(path)
      return path
  \<close>
  \<^verbatim>\<open>sorted\<close> is stable, as \<open>sort_key\<close> is.
\<close>

definition placeholder :: "string \<Rightarrow> string" where
  "placeholder param = ''{'' @ param @ ''}''"

definition extract_and_sort_path_path_params :: "url_spec \<Rightarrow> string list" where
  "extract_and_sort_path_path_params url_spec =
     map (\<lambda>(param, i). placeholder param)
       (dict_of (sort_key snd (regex_groupindex url_spec)))"

definition replace_path_with_openapi_placeholders :: "url_spec \<Rightarrow> py_error + string option" where
  "replace_path_with_openapi_placeholders url_spec =
     (if regex_groups url_spec = 0 then Inr (matcher_path url_spec)
      else (case matcher_path url_spec of
              None \<Rightarrow> Inl TypeError
            | Some path \<Rightarrow>
                bind (py_format path (extract_and_sort_path_path_params url_spec))
                  (\<lambda>r. Inr (Some r))))"

definition right_strip_path :: "string option \<Rightarrow> py_error + string" where
  "right_strip_path path =
     (case path of None \<Rightarrow> Inl AttributeError | Some p \<Rightarrow> Inr (rstrip ''/*'' p))"

definition get_path :: "url_spec \<Rightarrow> py_error + string" where
  "get_path url_spec =
     bind (replace_path_with_openapi_placeholders url_spec) right_strip_path"

text \<open>
  \<^verbatim>\<open>
  def get_path_params(url_spec):
      handler = url_spec.handler_class
      path_params = handler.path_params
      parameters = [PathParameter(parameter) for parameter in path_params.values()]
      return parameters
  \<close>
\<close>

definition get_path_params :: "url_spec \<Rightarrow> py_error + pydict list" where
  "get_path_params url_spec =
     map_err PathParameter (map snd (path_params (handler_class url_spec)))"

section \<open>Component registry\<close>

text \<open>
  Python's \<^verbatim>\<open>==\<close> on the data above: \<^verbatim>\<open>True\<close>, \<^verbatim>\<open>1\<close> and \<^verbatim>\<open>1.0\<close> are equal, lists are
  equal element by element, and dictionaries are equal when they have the same keys with
  equal values, in any order.
\<close>

fun num_of :: "pyval \<Rightarrow> real option" where
  "num_of (PBool b) = Some (if b then 1 else 0)"
| "num_of (PInt i) = Some (of_int i)"
| "num_of (PFloat r) = Some r"
| "num_of v = None"

fun py_eq :: "pyval \<Rightarrow> pyval \<Rightarrow> bool" where
  "py_eq PNone w = (w = PNone)"
| "py_eq (PBool b) w = (num_of w = Some (if b then 1 else 0))"
| "py_eq (PInt i) w = (num_of w = Some (of_int i))"
| "py_eq (PFloat r) w = (num_of w = Some r)"
| "py_eq (PStr s) w = (w = PStr s)"
| "py_eq (PList xs) w = (case w of PList ys \<Rightarrow> list_all2 py_eq xs ys | _ \<Rightarrow> False)"
| "py_eq (PDict d) w =
     (case w of
        PDict d' \<Rightarrow>
          length d = length d' \<and>
          list_all (\<lambda>(k, v). case map_of d' k of None \<Rightarrow> False | Some v' \<Rightarrow> py_eq v v') d
      | _ \<Rightarrow> False)"
| "py_eq (PMember n v) w = (w = PMember n v)"

text \<open>
  The registry is a \<^verbatim>\<open>Components\<close> object. Its base class \<^verbatim>\<open>apispec.core.Components\<close>
  belongs to the apispec library: it is not part of the repository and the spec does not
  describe it. Of the object the model keeps
  \<^item> \<open>schemas\<close>, the dictionary \<^verbatim>\<open>Components.schemas\<close> of the named schemas, and
  \<^item> \<open>stored_form\<close>, what the library makes of a schema before it stores it: a deep copy
    on which the plugins' schema helpers and the library's reference resolution have run
    (the empty dictionary for a false value). It depends on the library's release and on
    the plugins, may differ from the schema that was passed, and is left open here.

  A call of a method of the registry returns or raises, and leaves the registry in a
  state: its result is the pair of the two.
\<close>

record components =
  schemas :: pydict
  stored_form :: "pyval \<Rightarrow> pyval"

text \<open>
  The \<^verbatim>\<open>schema\<close> method of the base class, in the releases whose \<^verbatim>\<open>Components\<close> has the
  constructor and the \<^verbatim>\<open>schemas\<close> attribute the module uses:
  \<^verbatim>\<open>
  def schema(self, component_id, component=None, **kwargs):
      if component_id in self.schemas:
          raise DuplicateComponentNameError(
              f'Another schema with name "{component_id}" is already registered.')
      ret = deepcopy(component) or {}
      ...
      self.schemas[component_id] = ret
      return self
  \<close>
  The test for a registered identifier is its first statement: it raises before the
  registry is touched. The lines from the copy to the assignment are \<open>stored_form\<close>.
\<close>

definition Components_schema ::
    "components \<Rightarrow> string \<Rightarrow> pyval \<Rightarrow> (py_error + unit) \<times> components" where
  "Components_schema self component_id component =
     (if component_id \<in> set (map fst (schemas self))
      then (Inl DuplicateComponentNameError, self)
      else (Inr (),
            self\<lparr>schemas :=
                    dict_set (schemas self) component_id (stored_form self component)\<rparr>))"

text \<open>
  \<^verbatim>\<open>
  class TornOpenComponents(Components):
      def schema(self, component_id, component, **kwargs):
          if self.schemas.get(component_id) == component:
              return self
          super().schema(component_id, component, **kwargs)
  \<close>
\<close>

definition TornOpenComponents_schema ::
    "components \<Rightarrow> string \<Rightarrow> pyval \<Rightarrow> (py_error + unit) \<times> components" where
  "TornOpenComponents_schema self component_id component =
     (if py_eq (case dict_get (schemas self) component_id of None \<Rightarrow> PNone | Some s \<Rightarrow> s)
           component
      then (Inr (), self)
      else Components_schema self component_id component)"

section \<open>Operations\<close>

text \<open>
  \<^verbatim>\<open>
  def _is_implemented(method, handler):
      return getattr(handler, method) is not handler._unimplemented_method

  def _get_implemented_http_methods(url_spec):
      handler = url_spec.handler_class
      return [
          method.lower()
          for method in handler.SUPPORTED_METHODS
          if _is_implemented(method.lower(), handler)
      ]
  \<close>
\<close>

definition is_implemented :: "string \<Rightarrow> handler \<Rightarrow> py_error + bool" where
  "is_implemented method h = bind (getattr h method) (\<lambda>f. Inr (f \<noteq> Unimplemented))"

definition get_implemented_http_methods :: "url_spec \<Rightarrow> py_error + string list" where
  "get_implemented_http_methods url_spec =
     bind (filter_err (\<lambda>method. is_implemented (lower method) (handler_class url_spec))
             (SUPPORTED_METHODS (handler_class url_spec)))
       (\<lambda>methods. Inr (map lower methods))"

text \<open>
  \<^verbatim>\<open>
  def _get_tags(method, url_spec):
      handler = url_spec.handler_class
      method = getattr(handler, method, None)
      if method is handler._unimplemented_method:
          return None
      return getattr(method, "_openapi_tags", None)
  \<close>
  and \<^verbatim>\<open>_get_summary\<close> likewise, with \<^verbatim>\<open>_openapi_summary\<close>.
\<close>

definition get_tags :: "string \<Rightarrow> url_spec \<Rightarrow> pyval" where
  "get_tags method url_spec =
     (case map_of (attrs (handler_class url_spec)) method of
        None \<Rightarrow> PNone
      | Some Unimplemented \<Rightarrow> PNone
      | Some (Method m) \<Rightarrow> (case openapi_tags m of None \<Rightarrow> PNone | Some t \<Rightarrow> t))"

definition get_summary :: "string \<Rightarrow> url_spec \<Rightarrow> pyval" where
  "get_summary method url_spec =
     (case map_of (attrs (handler_class url_spec)) method of
        None \<Rightarrow> PNone
      | Some Unimplemented \<Rightarrow> PNone
      | Some (Method m) \<Rightarrow> (case openapi_summary m of None \<Rightarrow> PNone | Some t \<Rightarrow> t))"

text \<open>
  \<^verbatim>\<open>
  def _get_operation_description(method: str, url_spec):
      handler = url_spec.handler_class
      description = getattr(handler, method).__doc__
      description = description.strip() if description else description
      return description
  \<close>
  The stub has no docstring.
\<close>

definition dunder_doc :: "attr \<Rightarrow> string option" where
  "dunder_doc f = (case f of Unimplemented \<Rightarrow> None | Method m \<Rightarrow> method_doc m)"

definition get_operation_description :: "string \<Rightarrow> url_spec \<Rightarrow> py_error + pyval" where
  "get_operation_description method url_spec =
     bind (getattr (handler_class url_spec) method) (\<lambda>f.
       Inr (case dunder_doc f of
              None \<Rightarrow> PNone
            | Some description \<Rightarrow>
                if description \<noteq> [] then PStr (strip description) else PStr description))"

text \<open>
  \<^verbatim>\<open>
  def _get_query_params(method, url_spec):
      handler = url_spec.handler_class
      parameters = handler.query_params[method].values()
      return [QueryParameter(parameter) for parameter in parameters]
  \<close>
\<close>

definition get_query_params :: "string \<Rightarrow> url_spec \<Rightarrow> py_error + pydict list" where
  "get_query_params method url_spec =
     bind (dict_item (query_params (handler_class url_spec)) method) (\<lambda>parameters.
       map_err QueryParameter (map snd parameters))"

text \<open>
  \<^verbatim>\<open>
  def RequestBody(method: str, url_spec):
      handler = url_spec.handler_class
      json_param = handler.json_param[method]
      if not json_param:
          return None
      _, parameter = json_param
      return {"content": {"application/json": {"schema": RequestBodySchema(parameter)}}}

  def RequestBodySchema(parameter):
      return parameter.annotation.schema(ref_template=SCHEMA_REF_TEMPLATE)
  \<close>
  Only a model class has the \<^verbatim>\<open>schema\<close> method.
\<close>

definition RequestBodySchema :: "parameter \<Rightarrow> py_error + pydict" where
  "RequestBodySchema parameter =
     (case annotation parameter of
        ModelClass m \<Rightarrow> Inr (model_schema m)
      | _ \<Rightarrow> Inl AttributeError)"

definition RequestBody :: "string \<Rightarrow> url_spec \<Rightarrow> py_error + pyval" where
  "RequestBody method url_spec =
     bind (dict_item (json_param (handler_class url_spec)) method) (\<lambda>json_param.
       case json_param of
         None \<Rightarrow> Inr PNone
       | Some (_, parameter) \<Rightarrow>
           bind (RequestBodySchema parameter) (\<lambda>schema.
             Inr (PDict [(''content'',
                    PDict [(''application/json'', PDict [(''schema'', PDict schema)])])])))"

text \<open>
  \<^verbatim>\<open>
  def get_success_response_description(response_model):
      TEMPLATE_RESPONSE_DESCRIPTION = ...
      description = TEMPLATE_RESPONSE_DESCRIPTION.strip()
      if response_model and response_model.__doc__:
          description = response_model.__doc__.strip()
      return description
  \<close>
  The template is the text between the triple quotes of the source, line by line.
\<close>

definition TEMPLATE_RESPONSE_DESCRIPTION :: string where
  "TEMPLATE_RESPONSE_DESCRIPTION =
     [CHR 0x0A] @
     ''    Include a `torn_open.models.ResponseModel` annotation with documentation to overwrite this default description.'' @ [CHR 0x0A] @
     [CHR 0x0A] @
     ''    Example'' @ [CHR 0x0A] @
     ''    ```python'' @ [CHR 0x0A] @
     ''    from torn_open.web import AnnotatedHandler'' @ [CHR 0x0A] @
     ''    from torn_open.models import ResponseModel'' @ [CHR 0x0A] @
     [CHR 0x0A] @
     ''    class MyResponseModel(ResponseModel):'' @ [CHR 0x0A] @
     ''        '' @ [CHR 0x22] @ [CHR 0x22] @ [CHR 0x22] @ [CHR 0x0A] @
     ''        Successfully retrieved my response model'' @ [CHR 0x0A] @
     ''        '' @ [CHR 0x22] @ [CHR 0x22] @ [CHR 0x22] @ [CHR 0x0A] @
     ''        spam: str'' @ [CHR 0x0A] @
     ''        ham: int'' @ [CHR 0x0A] @
     [CHR 0x0A] @
     ''    class MyHandler(AnnotatedHandler):'' @ [CHR 0x0A] @
     ''        async def get(self) -> MyResponseModel:'' @ [CHR 0x0A] @
     ''            pass'' @ [CHR 0x0A] @
     [CHR 0x0A] @
     ''    ```'' @ [CHR 0x0A] @
     ''    ''"

definition get_success_response_description :: "model_class option \<Rightarrow> string" where
  "get_success_response_description response_model =
     (case response_model of
        None \<Rightarrow> strip TEMPLATE_RESPONSE_DESCRIPTION
      | Some m \<Rightarrow>
          (case model_doc m of
             None \<Rightarrow> strip TEMPLATE_RESPONSE_DESCRIPTION
           | Some doc \<Rightarrow>
               if doc \<noteq> [] then strip doc else strip TEMPLATE_RESPONSE_DESCRIPTION))"

text \<open>
  \<^verbatim>\<open>
  def SuccessResponseModelSchema(response_model, components):
      schema = (
          response_model.schema(ref_template=SCHEMA_REF_TEMPLATE)
          if response_model
          else None
      )
      if not schema:
          return schema
      referenced_schemas = schema.pop("definitions", {})
      if not referenced_schemas:
          return schema
      for referenced_schema_id, referenced_schema in referenced_schemas.items():
          components.schema(referenced_schema_id, referenced_schema)
      return schema
  \<close>
  The loop stops at the first registration that raises, with the registry as the
  registrations before it left it. An exception leaves this function and the generation
  of the spec; a return carries the schema and the registry. Only a dictionary has
  \<^verbatim>\<open>items\<close>.
\<close>

fun register_all :: "pydict \<Rightarrow> components \<Rightarrow> (py_error + unit) \<times> components" where
  "register_all [] components = (Inr (), components)"
| "register_all ((referenced_schema_id, referenced_schema) # rest) components =
     (case TornOpenComponents_schema components referenced_schema_id referenced_schema of
        (Inl e, components') \<Rightarrow> (Inl e, components')
      | (Inr _, components') \<Rightarrow> register_all rest components')"

definition dict_pop :: "pydict \<Rightarrow> string \<Rightarrow> pydict" where
  "dict_pop d k = filter (\<lambda>(k', v). k' \<noteq> k) d"

definition SuccessResponseModelSchema ::
    "model_class option \<Rightarrow> components \<Rightarrow> py_error + pyval \<times> components" where
  "SuccessResponseModelSchema response_model components =
     (case response_model of
        None \<Rightarrow> Inr (PNone, components)
      | Some m \<Rightarrow>
          if model_schema m = [] then Inr (PDict [], components)
          else
            (let referenced_schemas =
                   (case dict_get (model_schema m) ''definitions'' of
                      None \<Rightarrow> PDict [] | Some r \<Rightarrow> r);
                 schema = dict_pop (model_schema m) ''definitions''
             in if \<not> truthy referenced_schemas then Inr (PDict schema, components)
                else (case referenced_schemas of
                        PDict items \<Rightarrow>
                          (case register_all items components of
                             (Inl e, components') \<Rightarrow> Inl e
                           | (Inr _, components') \<Rightarrow> Inr (PDict schema, components'))
                      | _ \<Rightarrow> Inl AttributeError)))"

text \<open>
  \<^verbatim>\<open>
  def SuccessResponse(method, url_spec, components):
      response_model = url_spec.handler_class.response_models[method]
      return {
          "description": get_success_response_description(response_model),
          "content": {
              "application/json": {
                  "schema": SuccessResponseModelSchema(response_model, components)
              }
          },
      }

  def Responses(method, url_spec, components):
      return {"200": SuccessResponse(method, url_spec, components)}
  \<close>
\<close>

definition SuccessResponse ::
    "string \<Rightarrow> url_spec \<Rightarrow> components \<Rightarrow> py_error + pydict \<times> components" where
  "SuccessResponse method url_spec components =
     bind (dict_item (response_models (handler_class url_spec)) method) (\<lambda>response_model.
     bind (SuccessResponseModelSchema response_model components) (\<lambda>(schema, components').
       Inr ([(''description'', PStr (get_success_response_description response_model)),
             (''content'', PDict [(''application/json'', PDict [(''schema'', schema)])])],
            components')))"

definition Responses ::
    "string \<Rightarrow> url_spec \<Rightarrow> components \<Rightarrow> py_error + pydict \<times> components" where
  "Responses method url_spec components =
     bind (SuccessResponse method url_spec components) (\<lambda>(response, components').
       Inr ([(''200'', PDict response)], components'))"

text \<open>
  \<^verbatim>\<open>
  def Operation(method: str, url_spec, components):
      operation = {
          "tags": _get_tags(method, url_spec),
          "summary": _get_summary(method, url_spec),
          "parameters": _get_query_params(method, url_spec),
          "description": _get_operation_description(method, url_spec),
          "requestBody": RequestBody(method, url_spec),
          "responses": Responses(method, url_spec, components),
      }
      operation = _clear_none_from_dict(operation)
      return operation
  \<close>
\<close>

definition Operation ::
    "string \<Rightarrow> url_spec \<Rightarrow> components \<Rightarrow> py_error + pydict \<times> components" where
  "Operation method url_spec components =
     bind (get_query_params method url_spec) (\<lambda>parameters.
     bind (get_operation_description method url_spec) (\<lambda>description.
     bind (RequestBody method url_spec) (\<lambda>requestBody.
     bind (Responses method url_spec components) (\<lambda>(responses, components').
       Inr (clear_none_from_dict
              [(''tags'', get_tags method url_spec),
               (''summary'', get_summary method url_spec),
               (''parameters'', PList (map PDict parameters)),
               (''description'', description),
               (''requestBody'', requestBody),
               (''responses'', PDict responses)],
            components')))))"

text \<open>
  \<^verbatim>\<open>
  def Operations(url_spec, components):
      implemented_methods = _get_implemented_http_methods(url_spec)
      operations = {
          method: Operation(method, url_spec, components)
          for method in implemented_methods
      }
      return operations
  \<close>
\<close>

fun build_operations ::
    "string list \<Rightarrow> url_spec \<Rightarrow> components \<Rightarrow> (string \<times> pydict) list \<Rightarrow>
     py_error + (string \<times> pydict) list \<times> components" where
  "build_operations [] url_spec components operations = Inr (operations, components)"
| "build_operations (method # methods) url_spec components operations =
     bind (Operation method url_spec components) (\<lambda>(operation, components').
       build_operations methods url_spec components' (dict_set operations method operation))"

definition Operations ::
    "url_spec \<Rightarrow> components \<Rightarrow> py_error + (string \<times> pydict) list \<times> components" where
  "Operations url_spec components =
     bind (get_implemented_http_methods url_spec) (\<lambda>implemented_methods.
       build_operations implemented_methods url_spec components [])"

section \<open>The claims' vocabulary and an example\<close>

text \<open>
  A route's raw path with its \<^verbatim>\<open>%s\<close> slots spelled out: \<open>fill_slots s0 [(a1, s1), ..., (an, sn)]\<close>
  is the text \<open>s0 a1 s1 ... an sn\<close>. With every \<open>ai\<close> the slot \<^verbatim>\<open>%s\<close> it is the raw path, with
  the \<open>ai\<close> the placeholders it is the translated path.
\<close>

fun fill_slots :: "string \<Rightarrow> (string \<times> string) list \<Rightarrow> string" where
  "fill_slots s0 [] = s0"
| "fill_slots s0 ((a, s) # rest) = s0 @ a @ fill_slots s rest"

text \<open>A dictionary with no key whose value is \<^verbatim>\<open>None\<close>, \<^verbatim>\<open>{}\<close> or \<^verbatim>\<open>[]\<close>.\<close>

definition no_empty_values :: "pydict \<Rightarrow> bool" where
  "no_empty_values d =
     list_all (\<lambda>(k, v). v \<noteq> PNone \<and> v \<noteq> PDict [] \<and> v \<noteq> PList []) d"

text \<open>A verb the handler overrides: its attribute is a function other than the stub.\<close>

definition overridden :: "handler \<Rightarrow> string \<Rightarrow> bool" where
  "overridden h verb =
     (case map_of (attrs h) verb of Some (Method m) \<Rightarrow> True | _ \<Rightarrow> False)"

text \<open>
  An example: a handler that implements \<^verbatim>\<open>get\<close> only, on a route with two named groups,
  and a route without groups.
\<close>

definition pet_model :: model_class where
  "pet_model =
     \<lparr>model_doc = Some ''  A pet in the store.  '',
      model_schema =
        [(''title'', PStr ''Pet''), (''type'', PStr ''object''),
         (''properties'',
            PDict [(''owner'', PDict [(''$ref'', PStr ''#/components/schemas/Owner'')])]),
         (''definitions'',
            PDict [(''Owner'', PDict [(''title'', PStr ''Owner''), (''type'', PStr ''object'')])])]\<rparr>"

definition pet_handler :: handler where
  "pet_handler =
     \<lparr>SUPPORTED_METHODS = [''GET'', ''HEAD'', ''POST'', ''DELETE'', ''PATCH'', ''PUT'', ''OPTIONS''],
      attrs =
        [(''get'', Method \<lparr>method_doc = Some '' List the pets. '',
                          openapi_tags = Some (PList [PStr ''pets'']),
                          openapi_summary = None\<rparr>),
         (''head'', Unimplemented), (''post'', Unimplemented), (''delete'', Unimplemented),
         (''patch'', Unimplemented), (''put'', Unimplemented), (''options'', Unimplemented)],
      path_params =
        [(''store'', \<lparr>name = ''store'', annotation = Class StrT, default_value = None\<rparr>)],
      query_params =
        [(''get'', [(''limit'', \<lparr>name = ''limit'', annotation = Optional (Class IntT),
                                  default_value = Some (PInt 5)\<rparr>)])],
      json_param = [(''get'', None)],
      response_models = [(''get'', Some pet_model)]\<rparr>"

text \<open>Registries of a library that stores a schema as it is passed.\<close>

definition plain_copy :: "pyval \<Rightarrow> pyval" where
  "plain_copy component = component"

definition no_schemas :: components where
  "no_schemas = \<lparr>schemas = [], stored_form = plain_copy\<rparr>"

definition owner_registry :: components where
  "owner_registry =
     \<lparr>schemas = [(''Owner'', PDict [(''title'', PStr ''Owner''), (''n'', PInt 1)])],
      stored_form = plain_copy\<rparr>"

definition pet_route :: url_spec where
  "pet_route =
     \<lparr>matcher_path = Some ''/stores/%s/pets/%s/'',
      regex_groups = 2,
      regex_groupindex = [(''pet'', 2), (''store'', 1)],
      handler_class = pet_handler\<rparr>"

definition health_route :: url_spec where
  "health_route =
     \<lparr>matcher_path = Some ''/health/*'',
      regex_groups = 0,
      regex_groupindex = [],
      handler_class = pet_handler\<rparr>"

section \<open>Type inference: what each kind of annotation yields\<close>

lemma get_type_Class: "get_type (Class c) = Inr (types_mapping (Class c))"
  by (cases "types_mapping (Class c)")
     (simp_all add: get_type.simps [of "Class c"] is_optional_def isinstance_EnumMeta_def
        is_list_def isinstance_type_def)

lemma get_type_NoneObj: "get_type NoneObj = Inl AttributeError"
  by (simp add: get_type.simps [of NoneObj] types_mapping_def is_optional_def
        isinstance_EnumMeta_def is_list_def isinstance_type_def dunder_args_def)

lemma get_type_ModelClass: "get_type (ModelClass m) = Inr None"
  by (simp add: get_type.simps [of "ModelClass m"] types_mapping_def is_optional_def
        isinstance_EnumMeta_def is_list_def isinstance_type_def)

lemma types_mapping_Alias [simp]: "types_mapping (Alias origin args) = None"
  by (simp add: types_mapping_def)

lemma types_mapping_EnumClass [simp]: "types_mapping (EnumClass ms) = None"
  by (simp add: types_mapping_def)

lemma is_optional_Tuple: "\<not> is_optional (Tuple args)"
  by (simp add: is_optional_def)

lemma get_type_optional:
  "is_optional (Alias origin (x # xs)) \<Longrightarrow> get_type (Alias origin (x # xs)) = get_type x"
  by (simp add: get_type.simps [of "Alias origin (x # xs)"] dunder_args_def subscript_def)

lemma get_type_list_alias: "get_type (Alias (Class ListT) args) = Inr (Some ''array'')"
  by (simp add: get_type.simps [of "Alias (Class ListT) args"] is_optional_def
        isinstance_EnumMeta_def is_list_def dunder_origin_def get_type_Class types_mapping_def)

lemma get_type_other_alias:
  "\<not> is_optional (Alias origin args) \<Longrightarrow> \<not> is_list (Alias origin args) \<Longrightarrow>
   get_type (Alias origin args) = Inr None"
  by (simp add: get_type.simps [of "Alias origin args"] isinstance_EnumMeta_def
        isinstance_type_def dunder_args_def is_optional_Tuple)

lemma get_type_EnumClass_Cons:
  "get_type (EnumClass ((n, v) # ms)) = get_type (type_of v)"
  by (simp add: get_type.simps [of "EnumClass ((n, v) # ms)"] is_optional_def
        isinstance_EnumMeta_def get_type_of_enum_value_def unpack_enum_def bind_def)

lemma get_type_EnumClass_Nil: "get_type (EnumClass []) = Inl AttributeError"
  by (simp add: get_type.simps [of "EnumClass []"] is_optional_def
        isinstance_EnumMeta_def get_type_of_enum_value_def unpack_enum_def bind_def
        get_type_NoneObj)

lemma get_type_range:
  "get_type a = Inr (Some t) \<Longrightarrow> t \<in> {''string'', ''integer'', ''number'', ''array''}"
proof (induction a rule: get_type.induct)
  case (1 annotation)
  show ?case
  proof (cases "types_mapping annotation")
    case (Some u)
    with "1.prems" have "t = u" by (simp add: get_type.simps [of annotation])
    with Some show ?thesis
      by (auto simp: types_mapping_def split: if_splits)
  next
    case None
    with "1.prems" "1.IH" show ?thesis
      by (simp add: get_type.simps [of annotation] split: if_splits sum.splits)
  qed
qed

lemma get_type_Optional_Class:
  "get_type (Optional (Class c)) = Inr (types_mapping (Class c))"
  by (simp add: get_type_optional is_optional_def get_type_Class)

section \<open>Query parameters\<close>

lemma Schema_Optional_int_5:
  "annotation p = Optional (Class IntT) \<Longrightarrow> default_value p = Some (PInt 5) \<Longrightarrow>
   Schema p = Inr [(''type'', PStr ''integer''), (''default'', PInt 5)]"
  by (simp add: Schema_def bind_def get_type_Optional_Class types_mapping_def
        isinstance_EnumMeta_def get_default_value_of_parameter_def Items_def
        clear_none_from_dict_def opt_str_def)

text \<open>
  Claim C4. A query parameter annotated \<^verbatim>\<open>Optional[int]\<close> with default 5 yields exactly
  \<^verbatim>\<open>{"name": <name>, "in": "query", "required": false,
   "schema": {"type": "integer", "default": 5}}\<close>, and whenever \<^verbatim>\<open>QueryParameter\<close> returns a
  dictionary, its \<^verbatim>\<open>required\<close> entry is true exactly when the annotation is not Optional.
\<close>

theorem query_parameter_required:
  "(annotation p = Optional (Class IntT) \<and> default_value p = Some (PInt 5) \<longrightarrow>
      QueryParameter p =
        Inr [(''name'', PStr (name p)), (''in'', PStr ''query''), (''required'', PBool False),
             (''schema'', PDict [(''type'', PStr ''integer''), (''default'', PInt 5)])])
   \<and> (QueryParameter p = Inr d \<longrightarrow>
          dict_get d ''required'' = Some (PBool (\<not> is_optional (annotation p))))"
proof (intro conjI impI)
  assume "annotation p = Optional (Class IntT) \<and> default_value p = Some (PInt 5)"
  then show "QueryParameter p =
        Inr [(''name'', PStr (name p)), (''in'', PStr ''query''), (''required'', PBool False),
             (''schema'', PDict [(''type'', PStr ''integer''), (''default'', PInt 5)])]"
    by (simp add: QueryParameter_def Parameter_def bind_def Schema_Optional_int_5
          is_optional_def)
next
  assume "QueryParameter p = Inr d"
  then show "dict_get d ''required'' = Some (PBool (\<not> is_optional (annotation p)))"
    by (auto simp: QueryParameter_def Parameter_def bind_def dict_get_def split: sum.splits)
qed

theorem query_parameter_required_witness:
  "QueryParameter
     \<lparr>name = ''limit'', annotation = Optional (Class IntT), default_value = Some (PInt 5)\<rparr> =
     Inr [(''name'', PStr ''limit''), (''in'', PStr ''query''), (''required'', PBool False),
          (''schema'', PDict [(''type'', PStr ''integer''), (''default'', PInt 5)])]
   \<and> dict_get
         [(''name'', PStr ''limit''), (''in'', PStr ''query''), (''required'', PBool False),
          (''schema'', PDict [(''type'', PStr ''integer''), (''default'', PInt 5)])]
         ''required''
       = Some (PBool (\<not> is_optional (Optional (Class IntT))))"
  using query_parameter_required
    [of "\<lparr>name = ''limit'', annotation = Optional (Class IntT),
           default_value = Some (PInt 5)\<rparr>"
        "[(''name'', PStr ''limit''), (''in'', PStr ''query''), (''required'', PBool False),
          (''schema'', PDict [(''type'', PStr ''integer''), (''default'', PInt 5)])]"]
  by simp

section \<open>Parameter dictionaries\<close>

lemma Parameter_keys:
  "Parameter p t r = Inr d \<Longrightarrow> map fst d = [''name'', ''in'', ''required'', ''schema'']"
  by (auto simp: Parameter_def bind_def split: sum.splits)

lemma Parameter_schema:
  "Parameter p t r = Inr d \<Longrightarrow> Schema p = Inr s \<Longrightarrow> dict_get d ''schema'' = Some (PDict s)"
  by (auto simp: Parameter_def bind_def dict_get_def split: sum.splits)

lemma Schema_unrecognised_class:
  "annotation p = Class BoolT \<Longrightarrow> default_value p = None \<Longrightarrow> Schema p = Inr []"
  by (simp add: Schema_def bind_def get_type_Class types_mapping_def
        isinstance_EnumMeta_def get_default_value_of_parameter_def Items_def
        clear_none_from_dict_def opt_str_def)

lemma Schema_Optional_bool:
  "annotation p = Optional (Class BoolT) \<Longrightarrow> default_value p = None \<Longrightarrow> Schema p = Inr []"
  by (simp add: Schema_def bind_def get_type_Optional_Class types_mapping_def
        isinstance_EnumMeta_def get_default_value_of_parameter_def Items_def
        clear_none_from_dict_def opt_str_def)

text \<open>
  Claim C10. Every parameter dictionary, for a path and for a query parameter, has exactly
  the four keys \<^verbatim>\<open>name\<close>, \<^verbatim>\<open>in\<close>, \<^verbatim>\<open>required\<close> and \<^verbatim>\<open>schema\<close>, in that order: the
  compaction of false values is applied to the schema only. So an Optional query parameter
  carries \<^verbatim>\<open>"required": false\<close>, and the key \<^verbatim>\<open>schema\<close> is there also when the computed
  schema is the empty dictionary.
\<close>

theorem parameter_dict_four_keys:
  "(PathParameter p = Inr d \<longrightarrow> map fst d = [''name'', ''in'', ''required'', ''schema''])
   \<and> (QueryParameter p = Inr d \<longrightarrow>
          map fst d = [''name'', ''in'', ''required'', ''schema'']
          \<and> (is_optional (annotation p) \<longrightarrow> dict_get d ''required'' = Some (PBool False))
          \<and> (Schema p = Inr [] \<longrightarrow> dict_get d ''schema'' = Some (PDict [])))
   \<and> (PathParameter p = Inr d \<and> Schema p = Inr [] \<longrightarrow>
          dict_get d ''schema'' = Some (PDict []))"
proof (intro conjI impI)
  assume "PathParameter p = Inr d"
  then show "map fst d = [''name'', ''in'', ''required'', ''schema'']"
    unfolding PathParameter_def by (rule Parameter_keys)
next
  assume "QueryParameter p = Inr d"
  then show "map fst d = [''name'', ''in'', ''required'', ''schema'']"
    unfolding QueryParameter_def by (rule Parameter_keys)
next
  assume "QueryParameter p = Inr d" and "is_optional (annotation p)"
  then show "dict_get d ''required'' = Some (PBool False)"
    by (auto simp: QueryParameter_def Parameter_def bind_def dict_get_def split: sum.splits)
next
  assume "QueryParameter p = Inr d" and "Schema p = Inr []"
  then show "dict_get d ''schema'' = Some (PDict [])"
    unfolding QueryParameter_def by (rule Parameter_schema)
next
  assume "PathParameter p = Inr d \<and> Schema p = Inr []"
  then show "dict_get d ''schema'' = Some (PDict [])"
    unfolding PathParameter_def by (auto intro: Parameter_schema)
qed

theorem parameter_dict_four_keys_witness:
  "PathParameter \<lparr>name = ''flag'', annotation = Optional (Class BoolT), default_value = None\<rparr> =
     Inr [(''name'', PStr ''flag''), (''in'', PStr ''path''), (''required'', PBool True),
          (''schema'', PDict [])]
   \<and> QueryParameter \<lparr>name = ''flag'', annotation = Optional (Class BoolT), default_value = None\<rparr> =
     Inr [(''name'', PStr ''flag''), (''in'', PStr ''query''), (''required'', PBool False),
          (''schema'', PDict [])]
   \<and> is_optional (Optional (Class BoolT))
   \<and> Schema \<lparr>name = ''flag'', annotation = Optional (Class BoolT), default_value = None\<rparr> = Inr []
   \<and> map fst [(''name'', PStr ''flag''), (''in'', PStr ''query''), (''required'', PBool False),
          (''schema'', PDict [])] = [''name'', ''in'', ''required'', ''schema'']
   \<and> dict_get [(''name'', PStr ''flag''), (''in'', PStr ''query''), (''required'', PBool False),
          (''schema'', PDict [])] ''required'' = Some (PBool False)
   \<and> dict_get [(''name'', PStr ''flag''), (''in'', PStr ''query''), (''required'', PBool False),
          (''schema'', PDict [])] ''schema'' = Some (PDict [])"
  using parameter_dict_four_keys
    [of "\<lparr>name = ''flag'', annotation = Optional (Class BoolT), default_value = None\<rparr>"
        "[(''name'', PStr ''flag''), (''in'', PStr ''query''), (''required'', PBool False),
          (''schema'', PDict [])]"]
  by (simp add: PathParameter_def QueryParameter_def Parameter_def bind_def
        Schema_Optional_bool is_optional_def dict_get_def)


section \<open>Enumerated types\<close>

lemma get_type_type_of: "get_type (type_of v) = Inr (types_mapping (type_of v))"
  by (cases v) (simp_all add: get_type_Class)

lemma types_mapping_nonempty: "types_mapping a = Some t \<Longrightarrow> t \<noteq> []"
  by (auto simp: types_mapping_def split: if_splits)

lemma Schema_enum_entries:
  assumes ann: "annotation p = EnumClass ((n, v) # ms)" and ok: "Schema p = Inr d"
  shows "dict_get d ''enum'' = Some (PList (v # map snd ms))"
    and "dict_get d ''type'' = map_option PStr (types_mapping (type_of v))"
proof -
  have gt: "get_type (EnumClass ((n, v) # ms)) = Inr (types_mapping (type_of v))"
    by (simp add: get_type_EnumClass_Cons get_type_type_of)
  from ok obtain dflt items where
    d: "d = clear_none_from_dict
              [(''type'', opt_str (types_mapping (type_of v))),
               (''enum'', PList (v # map snd ms)), (''default'', dflt), (''items'', items)]"
    by (auto simp: Schema_def bind_def gt ann isinstance_EnumMeta_def unpack_enum_def
          split: sum.splits)
  show "dict_get d ''enum'' = Some (PList (v # map snd ms))"
    by (simp add: d clear_none_from_dict_def dict_get_def)
  show "dict_get d ''type'' = map_option PStr (types_mapping (type_of v))"
  proof (cases "types_mapping (type_of v)")
    case None
    then show ?thesis
      by (simp add: d clear_none_from_dict_def dict_get_def opt_str_def)
  next
    case (Some t)
    then show ?thesis
      using types_mapping_nonempty [OF Some]
      by (simp add: d clear_none_from_dict_def dict_get_def opt_str_def)
  qed
qed

text \<open>
  Claim C6. For an annotation that is an enumerated type, the inferred type is the one
  inferred from the type of the first member's value (a string value gives
  \<^verbatim>\<open>"string"\<close>), the schema's \<^verbatim>\<open>type\<close> entry is that type, and its \<^verbatim>\<open>enum\<close> entry lists the
  values of all members, not their names, in declaration order.
\<close>

theorem enum_schema_type_and_values:
  "get_type (EnumClass ((n, v) # ms)) = get_type (type_of v)
   \<and> get_type (EnumClass ((n, PStr s) # ms)) = Inr (Some ''string'')
   \<and> (annotation p = EnumClass ((n, v) # ms) \<and> Schema p = Inr d \<and> get_type (type_of v) = Inr t
        \<longrightarrow> dict_get d ''type'' = map_option PStr t
            \<and> dict_get d ''enum'' = Some (PList (map snd ((n, v) # ms))))"
proof (intro conjI impI)
  show "get_type (EnumClass ((n, v) # ms)) = get_type (type_of v)"
    by (rule get_type_EnumClass_Cons)
  show "get_type (EnumClass ((n, PStr s) # ms)) = Inr (Some ''string'')"
    by (simp add: get_type_EnumClass_Cons get_type_Class types_mapping_def)
next
  assume a: "annotation p = EnumClass ((n, v) # ms) \<and> Schema p = Inr d
             \<and> get_type (type_of v) = Inr t"
  then have ann: "annotation p = EnumClass ((n, v) # ms)" and ok: "Schema p = Inr d"
    and t: "t = types_mapping (type_of v)"
    by (simp_all add: get_type_type_of)
  show "dict_get d ''type'' = map_option PStr t"
    unfolding t by (rule Schema_enum_entries(2) [OF ann ok])
  show "dict_get d ''enum'' = Some (PList (map snd ((n, v) # ms)))"
    using Schema_enum_entries(1) [OF ann ok] by simp
qed

theorem enum_schema_type_and_values_witness:
  "annotation \<lparr>name = ''color'',
       annotation = EnumClass [(''RED'', PStr ''red''), (''GREEN'', PStr ''green'')],
       default_value = None\<rparr> = EnumClass ((''RED'', PStr ''red'') # [(''GREEN'', PStr ''green'')])
   \<and> Schema \<lparr>name = ''color'',
       annotation = EnumClass [(''RED'', PStr ''red''), (''GREEN'', PStr ''green'')],
       default_value = None\<rparr> =
       Inr [(''type'', PStr ''string''), (''enum'', PList [PStr ''red'', PStr ''green''])]
   \<and> get_type (type_of (PStr ''red'')) = Inr (Some ''string'')
   \<and> dict_get [(''type'', PStr ''string''), (''enum'', PList [PStr ''red'', PStr ''green''])]
        ''type'' = map_option PStr (Some ''string'')
   \<and> dict_get [(''type'', PStr ''string''), (''enum'', PList [PStr ''red'', PStr ''green''])]
        ''enum'' = Some (PList (map snd [(''RED'', PStr ''red''), (''GREEN'', PStr ''green'')]))"
  using enum_schema_type_and_values
    [of "''RED''" "PStr ''red''" "[(''GREEN'', PStr ''green'')]" "''red''"
        "\<lparr>name = ''color'',
           annotation = EnumClass [(''RED'', PStr ''red''), (''GREEN'', PStr ''green'')],
           default_value = None\<rparr>"
        "[(''type'', PStr ''string''), (''enum'', PList [PStr ''red'', PStr ''green''])]"
        "Some ''string''"]
  by (simp add: Schema_def bind_def get_type_EnumClass_Cons get_type_Class types_mapping_def
        isinstance_EnumMeta_def unpack_enum_def get_default_value_of_parameter_def Items_def
        clear_none_from_dict_def opt_str_def dict_get_def)

text \<open>
  Claim C9 says that \<^verbatim>\<open>_get_type\<close> returns no type and never raises on an annotation it
  does not recognise. The last test of \<^verbatim>\<open>_get_type\<close> reads \<^verbatim>\<open>annotation.__args__\<close> of every
  annotation that is not a class, so an annotation that is neither a class nor a
  parameterised generic (a string, a \<^verbatim>\<open>TypeVar\<close>, \<^verbatim>\<open>typing.Any\<close> before Python 3.11) raises
  \<^verbatim>\<open>AttributeError\<close>.
\<close>

theorem get_type_opaque_raises: "get_type (Opaque s) = Inl AttributeError"
  by (simp add: get_type.simps [of "Opaque s"] types_mapping_def is_optional_def
        isinstance_EnumMeta_def is_list_def isinstance_type_def dunder_args_def)

text \<open>Where the claim holds: an unrecognised class, and a generic that is neither Optional nor a list.\<close>

lemma get_type_unrecognised_class:
  "types_mapping (Class c) = None \<Longrightarrow> get_type (Class c) = Inr None"
  by (simp add: get_type_Class)

section \<open>Array items\<close>

lemma Items_not_array:
  "get_type a = Inr t \<Longrightarrow> t \<noteq> Some ''array'' \<Longrightarrow> Items a = Inr PNone"
  by (simp add: Items_def bind_def)

lemma Items_one_argument:
  "get_type (Alias origin [x]) = Inr (Some ''array'') \<Longrightarrow>
   Items (Alias origin [x]) = bind (get_type x) (\<lambda>t. Inr (PDict [(''type'', opt_str t)]))"
  by (simp add: Items_def get_item_type_def bind_def dunder_args_def subscript_def
        split: sum.splits)

lemma Items_List_str:
  "Items (ListOf (Class StrT)) = Inr (PDict [(''type'', PStr ''string'')])"
  by (simp add: Items_one_argument get_type_list_alias get_type_Class types_mapping_def
        bind_def opt_str_def)

lemma Items_Optional_List:
  "Items (Optional (ListOf x)) = bind (get_type x) (\<lambda>t. Inr (PDict [(''type'', opt_str t)]))"
proof -
  have "get_type (Optional (ListOf x)) = Inr (Some ''array'')"
    by (simp add: get_type_optional is_optional_def get_type_list_alias)
  then show ?thesis
    by (simp add: Items_def get_item_type_def bind_def dunder_args_def subscript_def
          is_optional_def split: sum.splits)
qed

lemma Items_other_arguments:
  "length args \<noteq> 1 \<Longrightarrow> \<not> is_optional (Alias origin args) \<Longrightarrow>
   get_type (Alias origin args) = Inr (Some ''array'') \<Longrightarrow>
   Items (Alias origin args) = Inr (PDict [(''type'', PNone)])"
  by (simp add: Items_def get_item_type_def bind_def dunder_args_def opt_str_def)

text \<open>
  Claim C5 says that the item type is absent in every case other than one type argument
  and \<^verbatim>\<open>Optional[List[T]]\<close>. For the bare class \<^verbatim>\<open>list\<close>, which the primitive map sends to
  \<^verbatim>\<open>"array"\<close>, \<^verbatim>\<open>_get_item_type\<close> reads \<^verbatim>\<open>list.__args__\<close> and raises \<^verbatim>\<open>AttributeError\<close>.
\<close>

theorem Items_bare_list_raises:
  "Items (Class ListT) = Inl AttributeError"
  by (simp add: Items_def get_item_type_def bind_def get_type_Class types_mapping_def
        dunder_args_def)

lemma Items_Optional_bare_list_raises:
  "Items (Optional (Class ListT)) = Inl AttributeError"
  by (simp add: Items_def get_item_type_def bind_def get_type_Optional_Class types_mapping_def
        dunder_args_def subscript_def is_optional_def)

lemma Schema_bare_list_raises:
  "annotation p = Class ListT \<Longrightarrow> Schema p = Inl AttributeError"
  by (simp add: Schema_def bind_def get_type_Class types_mapping_def isinstance_EnumMeta_def
        get_default_value_of_parameter_def Items_def get_item_type_def dunder_args_def)

section \<open>Path translation: the translated path\<close>

lemma py_format_literal:
  "CHR ''%'' \<notin> set s \<Longrightarrow>
   py_format (s @ t) args = bind (py_format t args) (\<lambda>r. Inr (s @ r))"
proof (induction s)
  case Nil
  show ?case by (simp add: bind_def split: sum.splits)
next
  case (Cons c s)
  then have c: "c \<noteq> CHR ''%''" and IH: "py_format (s @ t) args = bind (py_format t args) (\<lambda>r. Inr (s @ r))"
    by auto
  show ?case
  proof (cases "s @ t")
    case Nil
    then show ?thesis using c by (simp add: bind_def)
  next
    case (Cons d cs)
    have "py_format ((c # s) @ t) args = bind (py_format (s @ t) args) (\<lambda>r. Inr (c # r))"
      using c by (simp add: Cons)
    then show ?thesis
      by (simp add: IH bind_def split: sum.splits)
  qed
qed

lemma py_format_slot:
  "py_format (''%s'' @ t) (a # rest) = bind (py_format t rest) (\<lambda>r. Inr (a @ r))"
  by simp

lemma py_format_fill_slots:
  "CHR ''%'' \<notin> set s0 \<Longrightarrow> list_all (\<lambda>s. CHR ''%'' \<notin> set s) segs \<Longrightarrow>
   length args = length segs \<Longrightarrow>
   py_format (fill_slots s0 (map (Pair ''%s'') segs)) args = Inr (fill_slots s0 (zip args segs))"
proof (induction segs arbitrary: s0 args)
  case Nil
  then show ?case
    using py_format_literal [of s0 "[]" "[]"] by (simp add: bind_def)
next
  case (Cons s segs)
  then obtain a args' where args: "args = a # args'" and len: "length args' = length segs"
    by (cases args) auto
  have IH: "py_format (fill_slots s (map (Pair ''%s'') segs)) args' =
            Inr (fill_slots s (zip args' segs))"
    using Cons.IH [of s args'] Cons.prems len by simp
  have "py_format (s0 @ (''%s'' @ fill_slots s (map (Pair ''%s'') segs))) (a # args') =
        Inr (s0 @ a @ fill_slots s (zip args' segs))"
    unfolding py_format_literal [OF Cons.prems(1)] py_format_slot IH
    by (simp add: bind_def)
  then show ?case by (simp add: args)
qed

lemma dict_set_new: "k \<notin> fst ` set d \<Longrightarrow> dict_set d k v = d @ [(k, v)]"
  by (induction d) auto

lemma foldl_dict_set_distinct:
  "distinct (map fst (acc @ xs)) \<Longrightarrow>
   foldl (\<lambda>d (k, v). dict_set d k v) acc xs = acc @ xs"
proof (induction xs arbitrary: acc)
  case Nil
  show ?case by simp
next
  case (Cons x xs)
  obtain k v where x: "x = (k, v)" by (cases x)
  from Cons.prems have new: "k \<notin> fst ` set acc" and d: "distinct (map fst ((acc @ [(k, v)]) @ xs))"
    by (auto simp: x)
  show ?case
    using Cons.IH [OF d] by (simp add: x dict_set_new [OF new])
qed

lemma dict_of_distinct: "distinct (map fst xs) \<Longrightarrow> dict_of xs = xs"
  using foldl_dict_set_distinct [of "[]" xs] by (simp add: dict_of_def)

lemma distinct_keys_sort_key:
  "distinct (map fst xs) \<Longrightarrow> distinct (map fst (sort_key snd xs))"
  by (simp add: distinct_map)

lemma extract_and_sort_distinct:
  "distinct (map fst (regex_groupindex u)) \<Longrightarrow>
   extract_and_sort_path_path_params u =
     map (\<lambda>(param, i). placeholder param) (sort_key snd (regex_groupindex u))"
  by (simp add: extract_and_sort_path_path_params_def dict_of_distinct distinct_keys_sort_key)

lemma rstrip_decomp: "\<exists>t. p = rstrip cs p @ t \<and> set t \<subseteq> set cs"
proof -
  let ?P = "\<lambda>c. c \<in> set cs"
  have "p = rev (dropWhile ?P (rev p)) @ rev (takeWhile ?P (rev p))"
    by (metis rev_append rev_rev_ident takeWhile_dropWhile_id)
  moreover have "set (rev (takeWhile ?P (rev p))) \<subseteq> set cs"
    by (auto dest: set_takeWhileD)
  ultimately show ?thesis
    unfolding rstrip_def by blast
qed

lemma rstrip_last:
  assumes "rstrip cs p \<noteq> []"
  shows "last (rstrip cs p) \<notin> set cs"
proof -
  let ?d = "dropWhile (\<lambda>c. c \<in> set cs) (rev p)"
  from assms have "?d \<noteq> []" by (simp add: rstrip_def)
  then have "hd ?d \<notin> set cs" by (rule hd_dropWhile)
  then show ?thesis by (simp add: rstrip_def last_rev)
qed

lemma get_path_no_groups:
  "regex_groups u = 0 \<Longrightarrow> matcher_path u = Some p \<Longrightarrow> get_path u = Inr (rstrip ''/*'' p)"
  by (simp add: get_path_def replace_path_with_openapi_placeholders_def right_strip_path_def
        bind_def)

lemma get_path_groups:
  assumes "regex_groups u \<noteq> 0"
    and "matcher_path u = Some (fill_slots s0 (map (Pair ''%s'') segs))"
    and "CHR ''%'' \<notin> set s0" and "list_all (\<lambda>s. CHR ''%'' \<notin> set s) segs"
    and "distinct (map fst (regex_groupindex u))"
    and "length (regex_groupindex u) = length segs"
  shows "get_path u =
    Inr (rstrip ''/*''
      (fill_slots s0
        (zip (map (\<lambda>(param, i). placeholder param) (sort_key snd (regex_groupindex u))) segs)))"
proof -
  let ?args = "map (\<lambda>(param, i). placeholder param) (sort_key snd (regex_groupindex u))"
  have "length ?args = length segs" using assms(6) by simp
  then have "py_format (fill_slots s0 (map (Pair ''%s'') segs)) ?args =
             Inr (fill_slots s0 (zip ?args segs))"
    by (rule py_format_fill_slots [OF assms(3) assms(4)])
  then show ?thesis
    using assms(1,2)
    by (simp add: get_path_def replace_path_with_openapi_placeholders_def right_strip_path_def
          bind_def extract_and_sort_distinct [OF assms(5)])
qed

lemma get_path_two_groups:
  assumes "regex_groups u \<noteq> 0" and "i < j" and "a \<noteq> b"
    and "regex_groupindex u = [(a, i), (b, j)] \<or> regex_groupindex u = [(b, j), (a, i)]"
    and "matcher_path u = Some (s0 @ ''%s'' @ s1 @ ''%s'' @ s2)"
    and "CHR ''%'' \<notin> set s0" and "CHR ''%'' \<notin> set s1" and "CHR ''%'' \<notin> set s2"
  shows "get_path u = Inr (rstrip ''/*'' (s0 @ placeholder a @ s1 @ placeholder b @ s2))"
proof -
  have sorted: "sort_key snd (regex_groupindex u) = [(a, i), (b, j)]"
    using assms(2,4) by auto
  have path: "matcher_path u = Some (fill_slots s0 (map (Pair ''%s'') [s1, s2]))"
    using assms(5) by simp
  have "get_path u =
    Inr (rstrip ''/*''
      (fill_slots s0
        (zip (map (\<lambda>(param, i). placeholder param) (sort_key snd (regex_groupindex u)))
           [s1, s2])))"
    using assms(3,4,6,7,8) by (intro get_path_groups [OF assms(1) path]) auto
  then show ?thesis by (simp add: sorted)
qed

text \<open>
  Claim C3. For a route pattern with no capture groups, \<^verbatim>\<open>get_path\<close> returns the raw path
  with its trailing \<^verbatim>\<open>/\<close> and \<^verbatim>\<open>*\<close> characters stripped and otherwise unchanged. For a
  pattern with named groups, every \<^verbatim>\<open>%s\<close> slot of the raw path is replaced by \<^verbatim>\<open>{name}\<close>,
  the names taken in the order of their group index; so with groups \<open>a\<close> and \<open>b\<close> of
  indices \<open>i < j\<close> the result has \<^verbatim>\<open>{a}\<close> in the first slot and \<^verbatim>\<open>{b}\<close> in the second,
  whatever their alphabetical order and the order of \<^verbatim>\<open>groupindex\<close>. The raw path is
  one the router produced (the pattern has a \<^verbatim>\<open>_path\<close>, and its only percent signs are
  the slots), and \<^verbatim>\<open>groupindex\<close>, a dictionary, has distinct keys.
\<close>

theorem get_path_translation:
  "(regex_groups u0 = 0 \<and> matcher_path u0 = Some p \<longrightarrow>
      get_path u0 = Inr (rstrip ''/*'' p)
      \<and> (\<exists>t. p = rstrip ''/*'' p @ t \<and> set t \<subseteq> {CHR ''/'', CHR ''*''})
      \<and> (rstrip ''/*'' p \<noteq> [] \<longrightarrow> last (rstrip ''/*'' p) \<notin> {CHR ''/'', CHR ''*''}))
   \<and> (regex_groups u \<noteq> 0
        \<and> matcher_path u = Some (fill_slots s0 (map (Pair ''%s'') segs))
        \<and> CHR ''%'' \<notin> set s0 \<and> list_all (\<lambda>s. CHR ''%'' \<notin> set s) segs
        \<and> distinct (map fst (regex_groupindex u))
        \<and> length (regex_groupindex u) = length segs \<longrightarrow>
      get_path u =
        Inr (rstrip ''/*''
          (fill_slots s0
            (zip (map (\<lambda>(param, i). placeholder param) (sort_key snd (regex_groupindex u)))
               segs)))
      \<and> sorted (map snd (sort_key snd (regex_groupindex u))))
   \<and> (regex_groups u2 \<noteq> 0 \<and> i < j \<and> a \<noteq> b
        \<and> (regex_groupindex u2 = [(a, i), (b, j)] \<or> regex_groupindex u2 = [(b, j), (a, i)])
        \<and> matcher_path u2 = Some (s0' @ ''%s'' @ s1 @ ''%s'' @ s2)
        \<and> CHR ''%'' \<notin> set s0' \<and> CHR ''%'' \<notin> set s1 \<and> CHR ''%'' \<notin> set s2 \<longrightarrow>
      get_path u2 = Inr (rstrip ''/*'' (s0' @ ''{'' @ a @ ''}'' @ s1 @ ''{'' @ b @ ''}'' @ s2)))"
proof (intro conjI impI)
  assume "regex_groups u0 = 0 \<and> matcher_path u0 = Some p"
  then show "get_path u0 = Inr (rstrip ''/*'' p)"
    by (simp add: get_path_no_groups)
next
  show "\<exists>t. p = rstrip ''/*'' p @ t \<and> set t \<subseteq> {CHR ''/'', CHR ''*''}"
    using rstrip_decomp [of p "''/*''"] by simp
next
  assume "rstrip ''/*'' p \<noteq> []"
  then show "last (rstrip ''/*'' p) \<notin> {CHR ''/'', CHR ''*''}"
    using rstrip_last [of "''/*''" p] by simp
next
  assume "regex_groups u \<noteq> 0
        \<and> matcher_path u = Some (fill_slots s0 (map (Pair ''%s'') segs))
        \<and> CHR ''%'' \<notin> set s0 \<and> list_all (\<lambda>s. CHR ''%'' \<notin> set s) segs
        \<and> distinct (map fst (regex_groupindex u))
        \<and> length (regex_groupindex u) = length segs"
  then show "get_path u =
        Inr (rstrip ''/*''
          (fill_slots s0
            (zip (map (\<lambda>(param, i). placeholder param) (sort_key snd (regex_groupindex u)))
               segs)))"
    by (intro get_path_groups) simp_all
next
  show "sorted (map snd (sort_key snd (regex_groupindex u)))"
    by simp
next
  assume "regex_groups u2 \<noteq> 0 \<and> i < j \<and> a \<noteq> b
        \<and> (regex_groupindex u2 = [(a, i), (b, j)] \<or> regex_groupindex u2 = [(b, j), (a, i)])
        \<and> matcher_path u2 = Some (s0' @ ''%s'' @ s1 @ ''%s'' @ s2)
        \<and> CHR ''%'' \<notin> set s0' \<and> CHR ''%'' \<notin> set s1 \<and> CHR ''%'' \<notin> set s2"
  then have "get_path u2 = Inr (rstrip ''/*'' (s0' @ placeholder a @ s1 @ placeholder b @ s2))"
    by (intro get_path_two_groups [of u2 i j a b]) simp_all
  then show "get_path u2 = Inr (rstrip ''/*'' (s0' @ ''{'' @ a @ ''}'' @ s1 @ ''{'' @ b @ ''}'' @ s2))"
    by (simp add: placeholder_def)
qed

theorem get_path_translation_witness:
  "regex_groups health_route = 0 \<and> matcher_path health_route = Some ''/health/*''
   \<and> get_path health_route = Inr ''/health''
   \<and> regex_groups pet_route \<noteq> 0
   \<and> matcher_path pet_route = Some (fill_slots ''/stores/'' (map (Pair ''%s'') [''/pets/'', ''/'']))
   \<and> CHR ''%'' \<notin> set ''/stores/'' \<and> list_all (\<lambda>s. CHR ''%'' \<notin> set s) [''/pets/'', ''/'']
   \<and> distinct (map fst (regex_groupindex pet_route))
   \<and> length (regex_groupindex pet_route) = length [''/pets/'', ''/'']
   \<and> (1::nat) < 2 \<and> ''store'' \<noteq> ''pet''
   \<and> regex_groupindex pet_route = [(''pet'', 2), (''store'', 1)]
   \<and> matcher_path pet_route = Some (''/stores/'' @ ''%s'' @ ''/pets/'' @ ''%s'' @ ''/'')
   \<and> CHR ''%'' \<notin> set ''/pets/'' \<and> CHR ''%'' \<notin> set ''/''
   \<and> get_path pet_route = Inr ''/stores/{store}/pets/{pet}''"
  using get_path_translation
    [of health_route "''/health/*''" pet_route "''/stores/''" "[''/pets/'', ''/'']"
        pet_route 1 2 "''store''" "''pet''" "''/stores/''" "''/pets/''" "''/''"]
  by (simp add: health_route_def pet_route_def rstrip_def placeholder_def)

section \<open>Compaction\<close>

lemma truthy_not_empty: "truthy v \<Longrightarrow> v \<noteq> PNone \<and> v \<noteq> PDict [] \<and> v \<noteq> PList []"
  by (cases v) simp_all

lemma clear_none_all_truthy: "list_all (\<lambda>(k, v). truthy v) (clear_none_from_dict d)"
  by (induction d) (auto simp: clear_none_from_dict_def)

lemma clear_none_no_empty_values: "no_empty_values (clear_none_from_dict d)"
  unfolding no_empty_values_def clear_none_from_dict_def
  by (induction d) (auto dest: truthy_not_empty)

lemma Schema_compacted: "Schema p = Inr d \<Longrightarrow> \<exists>raw. d = clear_none_from_dict raw"
  by (auto simp: Schema_def bind_def split: sum.splits if_splits)

lemma Operation_compacted:
  "Operation m u c = Inr (op, c') \<Longrightarrow> \<exists>raw. op = clear_none_from_dict raw"
  by (auto simp: Operation_def bind_def split: sum.splits prod.splits)

lemma SuccessResponse_shape:
  "SuccessResponse m u c = Inr (resp, c') \<Longrightarrow>
   \<exists>rm schema. dict_item (response_models (handler_class u)) m = Inr rm \<and>
     resp = [(''description'', PStr (get_success_response_description rm)),
             (''content'', PDict [(''application/json'', PDict [(''schema'', schema)])])]"
  by (auto simp: SuccessResponse_def bind_def split: sum.splits prod.splits)

lemma Responses_shape:
  "Responses m u c = Inr (r, c') \<Longrightarrow>
   \<exists>rm schema. dict_item (response_models (handler_class u)) m = Inr rm \<and>
     r = [(''200'', PDict
            [(''description'', PStr (get_success_response_description rm)),
             (''content'', PDict [(''application/json'', PDict [(''schema'', schema)])])])]"
  by (auto simp: Responses_def bind_def split: sum.splits prod.splits
        dest!: SuccessResponse_shape)

lemma Operation_responses:
  "Operation m u c = Inr (op, c') \<Longrightarrow>
   \<exists>rm schema. dict_item (response_models (handler_class u)) m = Inr rm \<and>
     dict_get op ''responses'' = Some (PDict [(''200'', PDict
            [(''description'', PStr (get_success_response_description rm)),
             (''content'', PDict [(''application/json'', PDict [(''schema'', schema)])])])])"
  by (auto simp: Operation_def bind_def clear_none_from_dict_def dict_get_def
        split: sum.splits prod.splits dest!: Responses_shape)

text \<open>
  Claim C2, as amended. In the dictionary that \<^verbatim>\<open>Schema\<close> returns and in the one that
  \<^verbatim>\<open>Operation\<close> returns, both compacted, no key has the value \<^verbatim>\<open>None\<close>, \<^verbatim>\<open>{}\<close> or \<^verbatim>\<open>[]\<close>;
  the same holds of the dictionaries that \<^verbatim>\<open>Responses\<close> and \<^verbatim>\<open>SuccessResponse\<close> return. A
  parameter dictionary is left out: it is not compacted. The statement is about the keys
  of each of these dictionaries and says nothing of the dictionaries nested in their
  values.
\<close>

theorem compacted_dicts_no_empty_values:
  "(Schema p = Inr d \<longrightarrow> no_empty_values d)
   \<and> (Operation m u c = Inr (op, c1) \<longrightarrow> no_empty_values op)
   \<and> (Responses m' u' c' = Inr (r, c2) \<longrightarrow> no_empty_values r)
   \<and> (SuccessResponse m'' u'' c'' = Inr (resp, c3) \<longrightarrow> no_empty_values resp)"
proof (intro conjI impI)
  assume "Schema p = Inr d"
  then show "no_empty_values d"
    by (auto dest!: Schema_compacted simp: clear_none_no_empty_values)
next
  assume "Operation m u c = Inr (op, c1)"
  then show "no_empty_values op"
    by (auto dest!: Operation_compacted simp: clear_none_no_empty_values)
next
  assume "Responses m' u' c' = Inr (r, c2)"
  then show "no_empty_values r"
    by (auto dest!: Responses_shape simp: no_empty_values_def)
next
  assume "SuccessResponse m'' u'' c'' = Inr (resp, c3)"
  then show "no_empty_values resp"
    by (auto dest!: SuccessResponse_shape simp: no_empty_values_def)
qed

theorem compacted_dicts_no_empty_values_witness:
  "(case Schema \<lparr>name = ''limit'', annotation = Optional (Class IntT),
                 default_value = Some (PInt 5)\<rparr> of
      Inl e \<Rightarrow> False | Inr d \<Rightarrow> no_empty_values d)
   \<and> (case Operation ''get'' pet_route no_schemas of
        Inl e \<Rightarrow> False | Inr (op, c1) \<Rightarrow> no_empty_values op)
   \<and> (case Responses ''get'' pet_route no_schemas of
        Inl e \<Rightarrow> False | Inr (r, c2) \<Rightarrow> no_empty_values r)
   \<and> (case SuccessResponse ''get'' pet_route no_schemas of
        Inl e \<Rightarrow> False | Inr (resp, c3) \<Rightarrow> no_empty_values resp)"
proof -
  let ?p = "\<lparr>name = ''limit'', annotation = Optional (Class IntT),
             default_value = Some (PInt 5)\<rparr>"
  let ?c = "no_schemas"
  have "\<not> isl (Schema ?p)" by code_simp
  then obtain d where d: "Schema ?p = Inr d"
    by (cases "Schema ?p") auto
  have "\<not> isl (Operation ''get'' pet_route ?c)" by code_simp
  then obtain op c1 where op: "Operation ''get'' pet_route ?c = Inr (op, c1)"
    by (cases "Operation ''get'' pet_route ?c") auto
  have "\<not> isl (Responses ''get'' pet_route ?c)" by code_simp
  then obtain r c2 where r: "Responses ''get'' pet_route ?c = Inr (r, c2)"
    by (cases "Responses ''get'' pet_route ?c") auto
  have "\<not> isl (SuccessResponse ''get'' pet_route ?c)" by code_simp
  then obtain resp c3 where resp: "SuccessResponse ''get'' pet_route ?c = Inr (resp, c3)"
    by (cases "SuccessResponse ''get'' pet_route ?c") auto
  from compacted_dicts_no_empty_values
         [of ?p d "''get''" pet_route ?c op c1 "''get''" pet_route ?c r c2
             "''get''" pet_route ?c resp c3]
       d op r resp
  show ?thesis by simp
qed

text \<open>
  Claim C2 as the spec states it covers parameter dictionaries too. A query parameter
  annotated \<^verbatim>\<open>bool\<close> without a default has the empty schema, and its dictionary keeps the
  key \<^verbatim>\<open>schema\<close> with the value \<^verbatim>\<open>{}\<close>.
\<close>

theorem unrecognised_parameter_counterexample:
  "QueryParameter \<lparr>name = ''flag'', annotation = Class BoolT, default_value = None\<rparr> =
     Inr [(''name'', PStr ''flag''), (''in'', PStr ''query''), (''required'', PBool True),
          (''schema'', PDict [])]
   \<and> \<not> no_empty_values
         [(''name'', PStr ''flag''), (''in'', PStr ''query''), (''required'', PBool True),
          (''schema'', PDict [])]"
  by (simp add: QueryParameter_def Parameter_def bind_def Schema_unrecognised_class
        is_optional_def no_empty_values_def)

section \<open>Operations of a route\<close>

lemma filter_err_Inr:
  "filter_err f xs = Inr ys \<Longrightarrow> ys = filter (\<lambda>x. f x = Inr True) xs"
proof (induction xs arbitrary: ys)
  case Nil
  then show ?case by simp
next
  case (Cons x xs)
  then show ?case
    by (auto simp: bind_def split: sum.splits if_splits)
qed

lemma is_implemented_overridden:
  "is_implemented v h = Inr True \<longleftrightarrow> overridden h v"
  by (auto simp: is_implemented_def getattr_def bind_def overridden_def
        split: option.splits attr.splits)

lemma get_implemented_http_methods_set:
  assumes "get_implemented_http_methods u = Inr ms"
  shows "set ms = {v \<in> lower ` set (SUPPORTED_METHODS (handler_class u)).
                    overridden (handler_class u) v}"
proof -
  from assms obtain raw where
    raw: "filter_err (\<lambda>method. is_implemented (lower method) (handler_class u))
            (SUPPORTED_METHODS (handler_class u)) = Inr raw"
    and ms: "ms = map lower raw"
    by (auto simp: get_implemented_http_methods_def bind_def split: sum.splits)
  have "raw = filter (\<lambda>x. overridden (handler_class u) (lower x))
                (SUPPORTED_METHODS (handler_class u))"
    using filter_err_Inr [OF raw] by (simp add: is_implemented_overridden)
  then show ?thesis unfolding ms by auto
qed

lemma dict_set_keys: "fst ` set (dict_set d k v) = insert k (fst ` set d)"
  by (induction d) force+

lemma dict_set_distinct: "distinct (map fst d) \<Longrightarrow> distinct (map fst (dict_set d k v))"
  by (induction d) (auto simp: dict_set_keys)

lemma build_operations_keys:
  "build_operations ms u c acc = Inr (ops, c') \<Longrightarrow>
   set (map fst ops) = set (map fst acc) \<union> set ms
   \<and> (distinct (map fst acc) \<longrightarrow> distinct (map fst ops))"
proof (induction ms arbitrary: c acc)
  case Nil
  then show ?case by simp
next
  case (Cons m ms)
  from Cons.prems obtain op c1 where
    "build_operations ms u c1 (dict_set acc m op) = Inr (ops, c')"
    by (auto simp: bind_def split: sum.splits prod.splits)
  from Cons.IH [OF this] show ?case
    by (auto simp: dict_set_keys dict_set_distinct)
qed

lemma Operations_keys:
  assumes "Operations u c = Inr (ops, c')"
  shows "set (map fst ops) = {v \<in> lower ` set (SUPPORTED_METHODS (handler_class u)).
                                 overridden (handler_class u) v}"
    and "distinct (map fst ops)"
proof -
  from assms obtain ms where ms: "get_implemented_http_methods u = Inr ms"
    and b: "build_operations ms u c [] = Inr (ops, c')"
    by (auto simp: Operations_def bind_def split: sum.splits)
  from build_operations_keys [OF b] get_implemented_http_methods_set [OF ms]
  show "set (map fst ops) = {v \<in> lower ` set (SUPPORTED_METHODS (handler_class u)).
                                 overridden (handler_class u) v}"
    and "distinct (map fst ops)"
    by simp_all
qed

lemma distinct_singleton_set:
  assumes "distinct xs" and "set xs = {x}"
  shows "xs = [x]"
proof -
  have "length xs = 1"
    using distinct_card [OF assms(1)] assms(2) by simp
  then obtain y where "xs = [y]"
    by (cases xs) auto
  with assms(2) show ?thesis by simp
qed

text \<open>
  Claim C7. The mapping that \<^verbatim>\<open>Operations\<close> builds for a route has exactly the verbs of
  \<^verbatim>\<open>SUPPORTED_METHODS\<close>, in lower case, that the handler overrides (whose attribute is not
  the stub \<^verbatim>\<open>_unimplemented_method\<close>), each once. In particular, when \<^verbatim>\<open>get\<close> is the only
  overridden verb, the only key is \<^verbatim>\<open>get\<close>.
\<close>

theorem Operations_implemented_verbs:
  "Operations u c = Inr (ops, c') \<longrightarrow>
     set (map fst ops) = {v \<in> lower ` set (SUPPORTED_METHODS (handler_class u)).
                            overridden (handler_class u) v}
     \<and> distinct (map fst ops)
     \<and> ({v \<in> lower ` set (SUPPORTED_METHODS (handler_class u)).
            overridden (handler_class u) v} = {''get''} \<longrightarrow> map fst ops = [''get''])"
proof (intro impI conjI)
  assume ok: "Operations u c = Inr (ops, c')"
  show keys: "set (map fst ops) = {v \<in> lower ` set (SUPPORTED_METHODS (handler_class u)).
                            overridden (handler_class u) v}"
    by (rule Operations_keys(1) [OF ok])
  show d: "distinct (map fst ops)"
    by (rule Operations_keys(2) [OF ok])
  assume "{v \<in> lower ` set (SUPPORTED_METHODS (handler_class u)).
            overridden (handler_class u) v} = {''get''}"
  with keys have "set (map fst ops) = {''get''}" by simp
  with d show "map fst ops = [''get'']" by (rule distinct_singleton_set)
qed

lemma lower_tornado_verbs:
  "map lower [''GET'', ''HEAD'', ''POST'', ''DELETE'', ''PATCH'', ''PUT'', ''OPTIONS''] =
     [''get'', ''head'', ''post'', ''delete'', ''patch'', ''put'', ''options'']"
  by code_simp

lemma pet_handler_overridden:
  "{v \<in> lower ` set (SUPPORTED_METHODS (handler_class pet_route)).
          overridden (handler_class pet_route) v} = {''get''}"
proof -
  have "lower ` set (SUPPORTED_METHODS (handler_class pet_route)) =
        set [''get'', ''head'', ''post'', ''delete'', ''patch'', ''put'', ''options'']"
    unfolding lower_tornado_verbs [symmetric] by (simp add: pet_route_def pet_handler_def)
  then show ?thesis
    by (auto simp: overridden_def pet_route_def pet_handler_def)
qed

theorem Operations_implemented_verbs_witness:
  "(case Operations pet_route no_schemas of
      Inl e \<Rightarrow> False
    | Inr (ops, c') \<Rightarrow> map fst ops = [''get''] \<and> distinct (map fst ops))
   \<and> overridden pet_handler ''get'' \<and> \<not> overridden pet_handler ''post''
   \<and> {v \<in> lower ` set (SUPPORTED_METHODS (handler_class pet_route)).
          overridden (handler_class pet_route) v} = {''get''}"
proof -
  have "\<not> isl (Operations pet_route no_schemas)" by code_simp
  then obtain ops c' where ok: "Operations pet_route no_schemas = Inr (ops, c')"
    by (cases "Operations pet_route no_schemas") auto
  have o: "overridden pet_handler ''get'' \<and> \<not> overridden pet_handler ''post''"
    by (simp add: overridden_def pet_handler_def)
  from Operations_implemented_verbs [of pet_route "no_schemas" ops c'] ok
    pet_handler_overridden
  have k: "map fst ops = [''get''] \<and> distinct (map fst ops)" by blast
  have "case Operations pet_route no_schemas of
      Inl e \<Rightarrow> False
    | Inr (ops, c') \<Rightarrow> map fst ops = [''get''] \<and> distinct (map fst ops)"
    unfolding ok using k by simp
  with o pet_handler_overridden show ?thesis by blast
qed

section \<open>Responses\<close>

lemma description_with_docstring:
  "model_doc mc = Some doc \<Longrightarrow> doc \<noteq> [] \<Longrightarrow>
   get_success_response_description (Some mc) = strip doc"
  by (simp add: get_success_response_description_def)

lemma description_without_docstring:
  "model_doc mc = None \<or> model_doc mc = Some [] \<Longrightarrow>
   get_success_response_description (Some mc) = strip TEMPLATE_RESPONSE_DESCRIPTION"
  by (auto simp: get_success_response_description_def)

lemma description_without_model:
  "get_success_response_description None = strip TEMPLATE_RESPONSE_DESCRIPTION"
  by (simp add: get_success_response_description_def)

text \<open>
  Claim C8. In every operation that is built, \<^verbatim>\<open>responses\<close> has exactly one entry, with the
  key \<^verbatim>\<open>"200"\<close>. Its description is the docstring of the declared response model with the
  white space at both ends stripped when the model has a docstring, and the stripped
  template text otherwise: with no response model, with a model that has no docstring, or
  with an empty docstring, which Python's truth test takes for none.
\<close>

theorem Operation_responses_200:
  "(Operation m u c = Inr (op, c') \<longrightarrow>
      (\<exists>rm schema.
         dict_item (response_models (handler_class u)) m = Inr rm
         \<and> dict_get op ''responses'' =
             Some (PDict [(''200'', PDict
               [(''description'', PStr (get_success_response_description rm)),
                (''content'',
                   PDict [(''application/json'', PDict [(''schema'', schema)])])])])))
   \<and> (model_doc mc = Some doc \<and> doc \<noteq> [] \<longrightarrow>
        get_success_response_description (Some mc) = strip doc)
   \<and> (model_doc mc' = None \<or> model_doc mc' = Some [] \<longrightarrow>
        get_success_response_description (Some mc') = strip TEMPLATE_RESPONSE_DESCRIPTION)
   \<and> get_success_response_description None = strip TEMPLATE_RESPONSE_DESCRIPTION"
proof (intro conjI impI)
  assume "Operation m u c = Inr (op, c')"
  then show "\<exists>rm schema.
         dict_item (response_models (handler_class u)) m = Inr rm
         \<and> dict_get op ''responses'' =
             Some (PDict [(''200'', PDict
               [(''description'', PStr (get_success_response_description rm)),
                (''content'',
                   PDict [(''application/json'', PDict [(''schema'', schema)])])])])"
    by (rule Operation_responses)
next
  assume "model_doc mc = Some doc \<and> doc \<noteq> []"
  then show "get_success_response_description (Some mc) = strip doc"
    by (simp add: description_with_docstring)
next
  assume "model_doc mc' = None \<or> model_doc mc' = Some []"
  then show "get_success_response_description (Some mc') = strip TEMPLATE_RESPONSE_DESCRIPTION"
    by (rule description_without_docstring)
next
  show "get_success_response_description None = strip TEMPLATE_RESPONSE_DESCRIPTION"
    by (rule description_without_model)
qed

lemma strip_pet_doc: "strip ''  A pet in the store.  '' = ''A pet in the store.''"
  by code_simp

theorem Operation_responses_200_witness:
  "(case Operation ''get'' pet_route no_schemas of
      Inl e \<Rightarrow> False
    | Inr (op, c') \<Rightarrow>
        (\<exists>schema. dict_get op ''responses'' =
           Some (PDict [(''200'', PDict
             [(''description'', PStr ''A pet in the store.''),
              (''content'', PDict [(''application/json'', PDict [(''schema'', schema)])])])])))
   \<and> dict_item (response_models (handler_class pet_route)) ''get'' = Inr (Some pet_model)
   \<and> model_doc pet_model = Some ''  A pet in the store.  ''
   \<and> get_success_response_description (Some pet_model) = ''A pet in the store.''
   \<and> model_doc (pet_model\<lparr>model_doc := None\<rparr>) = None
   \<and> get_success_response_description (Some (pet_model\<lparr>model_doc := None\<rparr>)) =
       strip TEMPLATE_RESPONSE_DESCRIPTION"
proof -
  let ?c = "no_schemas"
  let ?nodoc = "pet_model\<lparr>model_doc := None\<rparr>"
  have "\<not> isl (Operation ''get'' pet_route ?c)" by code_simp
  then obtain op c' where ok: "Operation ''get'' pet_route ?c = Inr (op, c')"
    by (cases "Operation ''get'' pet_route ?c") auto
  have rm: "dict_item (response_models (handler_class pet_route)) ''get'' = Inr (Some pet_model)"
    by (simp add: dict_item_def pet_route_def pet_handler_def)
  have doc: "model_doc pet_model = Some ''  A pet in the store.  ''"
    by (simp add: pet_model_def)
  have nodoc: "model_doc ?nodoc = None" by simp
  note inst = Operation_responses_200
    [of "''get''" pet_route ?c op c' pet_model "''  A pet in the store.  ''" ?nodoc]
  from inst doc have d1: "get_success_response_description (Some pet_model) = ''A pet in the store.''"
    by (simp add: strip_pet_doc)
  from inst nodoc have d2: "get_success_response_description (Some ?nodoc) =
       strip TEMPLATE_RESPONSE_DESCRIPTION"
    by blast
  from inst ok rm d1 have
    "\<exists>schema. dict_get op ''responses'' =
           Some (PDict [(''200'', PDict
             [(''description'', PStr ''A pet in the store.''),
              (''content'', PDict [(''application/json'', PDict [(''schema'', schema)])])])])"
    by auto
  then have "case Operation ''get'' pet_route ?c of
      Inl e \<Rightarrow> False
    | Inr (op, c') \<Rightarrow>
        (\<exists>schema. dict_get op ''responses'' =
           Some (PDict [(''200'', PDict
             [(''description'', PStr ''A pet in the store.''),
              (''content'', PDict [(''application/json'', PDict [(''schema'', schema)])])])]))"
    unfolding ok by simp
  with rm doc d1 nodoc d2 show ?thesis by blast
qed

section \<open>Registering schemas\<close>

lemma dict_get_None_keys: "dict_get d k = None \<longleftrightarrow> k \<notin> fst ` set d"
  by (simp add: dict_get_def map_of_eq_None_iff)

lemma dict_get_Some_keys: "dict_get d k = Some v \<Longrightarrow> k \<in> fst ` set d"
  using dict_get_None_keys [of d k] by auto

lemma register_equal:
  "dict_get (schemas self) cid = Some old \<Longrightarrow> py_eq old component \<Longrightarrow>
   TornOpenComponents_schema self cid component = (Inr (), self)"
  by (simp add: TornOpenComponents_schema_def)

lemma register_different:
  "dict_get (schemas self) cid = Some old \<Longrightarrow> \<not> py_eq old component \<Longrightarrow>
   TornOpenComponents_schema self cid component = (Inl DuplicateComponentNameError, self)"
  by (simp add: TornOpenComponents_schema_def Components_schema_def dict_get_Some_keys)

text \<open>
  Claim C1, as amended. Registering under an identifier whose stored schema is equal to the
  new one (Python's \<^verbatim>\<open>==\<close>) returns and leaves the registry as it is. Registering under an
  identifier that is stored with a different schema raises \<^verbatim>\<open>DuplicateComponentNameError\<close>
  and leaves the registry as it is too: the stored schema is not overwritten, the first
  writer stays.
\<close>

theorem register_schema:
  "(dict_get (schemas self) cid = Some old \<and> py_eq old component \<longrightarrow>
      TornOpenComponents_schema self cid component = (Inr (), self))
   \<and> (dict_get (schemas self) cid = Some old \<and> \<not> py_eq old component \<longrightarrow>
        TornOpenComponents_schema self cid component =
          (Inl DuplicateComponentNameError, self))"
  using register_equal register_different by blast

text \<open>
  Claim C1 as the spec states it has the second registration overwrite the first without
  an error. With \<^verbatim>\<open>Owner\<close> registered, registering another schema as \<^verbatim>\<open>Owner\<close> raises, and
  the registry still holds the first one.
\<close>

theorem register_schema_counterexample:
  "TornOpenComponents_schema owner_registry ''Owner'' (PDict [(''title'', PStr ''Pet'')]) =
     (Inl DuplicateComponentNameError, owner_registry)
   \<and> dict_get (schemas owner_registry) ''Owner'' =
       Some (PDict [(''title'', PStr ''Owner''), (''n'', PInt 1)])"
  by (simp add: TornOpenComponents_schema_def Components_schema_def dict_get_def
        owner_registry_def)

theorem register_schema_witness:
  "dict_get (schemas owner_registry) ''Owner'' =
     Some (PDict [(''title'', PStr ''Owner''), (''n'', PInt 1)])
   \<and> py_eq (PDict [(''title'', PStr ''Owner''), (''n'', PInt 1)])
         (PDict [(''n'', PFloat 1), (''title'', PStr ''Owner'')])
   \<and> TornOpenComponents_schema owner_registry ''Owner''
         (PDict [(''n'', PFloat 1), (''title'', PStr ''Owner'')]) = (Inr (), owner_registry)
   \<and> \<not> py_eq (PDict [(''title'', PStr ''Owner''), (''n'', PInt 1)])
           (PDict [(''title'', PStr ''Pet'')])
   \<and> TornOpenComponents_schema owner_registry ''Owner'' (PDict [(''title'', PStr ''Pet'')]) =
       (Inl DuplicateComponentNameError, owner_registry)"
proof -
  have stored: "dict_get (schemas owner_registry) ''Owner'' =
     Some (PDict [(''title'', PStr ''Owner''), (''n'', PInt 1)])"
    by (simp add: owner_registry_def dict_get_def)
  have eq: "py_eq (PDict [(''title'', PStr ''Owner''), (''n'', PInt 1)])
         (PDict [(''n'', PFloat 1), (''title'', PStr ''Owner'')])"
    by simp
  have ne: "\<not> py_eq (PDict [(''title'', PStr ''Owner''), (''n'', PInt 1)])
           (PDict [(''title'', PStr ''Pet'')])"
    by simp
  from register_schema
         [of owner_registry "''Owner''" "PDict [(''title'', PStr ''Owner''), (''n'', PInt 1)]"
             "PDict [(''n'', PFloat 1), (''title'', PStr ''Owner'')]"]
       stored eq
  have same: "TornOpenComponents_schema owner_registry ''Owner''
         (PDict [(''n'', PFloat 1), (''title'', PStr ''Owner'')]) = (Inr (), owner_registry)"
    by blast
  from register_schema
         [of owner_registry "''Owner''" "PDict [(''title'', PStr ''Owner''), (''n'', PInt 1)]"
             "PDict [(''title'', PStr ''Pet'')]"]
       stored ne
  have other: "TornOpenComponents_schema owner_registry ''Owner''
         (PDict [(''title'', PStr ''Pet'')]) = (Inl DuplicateComponentNameError, owner_registry)"
    by blast
  from stored eq same ne other show ?thesis by blast
qed

end
